theory Spec2Isabelle
  imports Main "HOL-Library.Word"
begin

section \<open>Assasim simulation core: the master of a group of agents\<close>

text \<open>
  A shallow embedding of \<^verbatim>\<open>precompilation/simulation_basis\<close>: the class
  \<^verbatim>\<open>Master\<close> (master.hpp, master.cpp), the scratch arena
  \<^verbatim>\<open>utils::custom_heap\<close>, the cache \<^verbatim>\<open>utils::thread_safe_unordered_map\<close>
  and the \<^verbatim>\<open>run\<close> and \<^verbatim>\<open>set_period\<close> commands of user_interface.cpp.

  Conventions. A member \<^verbatim>\<open>name_\<close> of the C++ class is the record field \<open>name\<close>
  (an Isabelle name cannot end with an underscore); \<^verbatim>\<open>id_\<close> is \<open>id_m\<close>.
  The 64-bit unsigned types of types.hpp (\<^verbatim>\<open>AgentId\<close>, \<^verbatim>\<open>AgentType\<close>,
  \<^verbatim>\<open>AgentGlobalId\<close>, \<^verbatim>\<open>Attribute\<close>, \<^verbatim>\<open>InteractionType\<close>, \<^verbatim>\<open>Time\<close>) and
  \<^verbatim>\<open>size_t\<close> are \<open>64 word\<close>, so that \<open>+\<close> and \<open>*\<close> wrap around as in the
  source. \<^verbatim>\<open>MasterId\<close> and the other C \<^verbatim>\<open>int\<close>s are only compared, counted
  upwards from 0 below a bound, or converted to \<^verbatim>\<open>size_t\<close>; they are \<open>int\<close>, and the
  conversion to \<^verbatim>\<open>size_t\<close> is \<open>word_of_int\<close>. An exception is a value \<open>Inl e\<close> of
  the result type \<open>error + 'a\<close>.
\<close>

subsection \<open>Types of types.hpp\<close>

type_synonym u64 = "64 word"
type_synonym byte = "8 word"

type_synonym AgentId = u64
type_synonym AgentGlobalId = u64
type_synonym AgentType = u64
type_synonym InteractionType = u64
type_synonym Attribute = u64
type_synonym Time = u64
type_synonym size_t = u64
type_synonym MasterId = int
type_synonym MPI_Datatype = nat

text \<open>
  What a call can end with instead of returning: the exceptions thrown by the source
  (\<^verbatim>\<open>std::out_of_range\<close> of \<^verbatim>\<open>at\<close>, \<^verbatim>\<open>std::length_error\<close> of \<^verbatim>\<open>resize\<close>,
  \<^verbatim>\<open>AgentNotFound\<close> of types.hpp, \<^verbatim>\<open>std::runtime_error\<close> of custom_heap), the
  undefined behaviours it can run into (a division by zero agent types, a write through a
  null pointer), a blocking \<^verbatim>\<open>MPI_Recv\<close> for which no message was sent, and
  a receive whose buffer is not of the kind of the message.
\<close>

datatype error =
    out_of_range
  | length_error
  | AgentNotFound AgentId string
  | runtime_error string
  | division_by_zero
  | null_dereference
  | blocked_in_MPI_Recv
  | MPI_type_mismatch

text \<open>types.hpp, \<^verbatim>\<open>WindowDescription\<close>.\<close>

record WindowDescription =
  size_w :: size_t
  used :: size_t

text \<open>master.hpp, \<^verbatim>\<open>enum class Order\<close>.\<close>

datatype Order =
    KILL_SIMULATION
  | RUN_SIMULATION
  | CHANGE_PERIOD
  | ADD_AGENTS
  | MODIFY_ATTRIBUTE
  | EXPORT_SIMULATION
  | IDLE

text \<open>
  interaction.hpp, class \<^verbatim>\<open>Interaction\<close>: the five identifying members; \<open>structure\<close>
  stands for the serialised record the object owns.
\<close>

record Interaction =
  type_i :: InteractionType
  sender_id :: AgentId
  sender_type :: AgentType
  recipient_id :: AgentId
  recipient_type :: AgentType
  "structure" :: "byte list"

text \<open>
  agent.hpp, class \<^verbatim>\<open>Agent\<close>. The attributes of the generated subclass are a map from
  attribute identifiers to their bytes (\<^verbatim>\<open>GetPointerToAttribute\<close> returns
  \<^verbatim>\<open>nullptr\<close> outside its domain); \<open>received\<close> is the list filled by
  \<^verbatim>\<open>ReceiveMessage\<close>.
\<close>

record Agent =
  agent_id :: AgentId
  agent_type :: AgentType
  attributes :: "Attribute \<rightharpoonup> byte list"
  received :: "Interaction list"

subsection \<open>Process memory and \<^verbatim>\<open>utils::custom_heap\<close>\<close>

text \<open>
  A pointer is a block and an offset into it. The C library is a parameter of the model:
  \<open>malloc_ok n\<close> tells whether \<^verbatim>\<open>malloc(n)\<close> succeeds, and \<open>realloc_how old new\<close>
  what \<^verbatim>\<open>realloc\<close> does with a block of \<open>old\<close> bytes asked to become \<open>new\<close> bytes:
  fail, resize the block where it is, or move it (copy the bytes to a fresh block and free
  the old one), the three outcomes the C standard allows.
\<close>

datatype pointer = nullptr | Addr nat nat

datatype realloc_outcome = Realloc_fails | Realloc_in_place | Realloc_moves

record memory =
  blocks :: "nat \<rightharpoonup> byte list"
  next_block :: nat
  malloc_ok :: "nat \<Rightarrow> bool"
  realloc_how :: "nat \<Rightarrow> nat \<Rightarrow> realloc_outcome"

definition resize_bytes :: "nat \<Rightarrow> byte list \<Rightarrow> byte list" where
  "resize_bytes n bs = take n bs @ replicate (n - length bs) 0"

definition malloc :: "nat \<Rightarrow> memory \<Rightarrow> pointer \<times> memory" where
  "malloc n mem =
     (if malloc_ok mem n
      then (Addr (next_block mem) 0,
            mem\<lparr>blocks := (blocks mem)(next_block mem \<mapsto> replicate n 0),
                next_block := Suc (next_block mem)\<rparr>)
      else (nullptr, mem))"

fun realloc :: "pointer \<Rightarrow> nat \<Rightarrow> memory \<Rightarrow> pointer \<times> memory" where
  "realloc nullptr n mem = malloc n mem"
| "realloc (Addr b off) n mem =
     (case blocks mem b of
        None \<Rightarrow> (nullptr, mem)
      | Some bs \<Rightarrow>
          (case realloc_how mem (length bs) n of
             Realloc_fails \<Rightarrow> (nullptr, mem)
           | Realloc_in_place \<Rightarrow> (Addr b 0, mem\<lparr>blocks := (blocks mem)(b \<mapsto> resize_bytes n bs)\<rparr>)
           | Realloc_moves \<Rightarrow>
               (Addr (next_block mem) 0,
                mem\<lparr>blocks := ((blocks mem)(b := None))(next_block mem \<mapsto> resize_bytes n bs),
                    next_block := Suc (next_block mem)\<rparr>)))"

text \<open>\<^verbatim>\<open>(uint8_t*)p + n\<close>.\<close>

fun ptr_add :: "pointer \<Rightarrow> nat \<Rightarrow> pointer" where
  "ptr_add nullptr n = nullptr"
| "ptr_add (Addr b off) n = Addr b (off + n)"

text \<open>
  A pointer to \<open>n\<close> bytes is valid when its block is live and the bytes lie inside it;
  \<open>load\<close> reads them.
\<close>

fun valid_pointer :: "memory \<Rightarrow> pointer \<Rightarrow> nat \<Rightarrow> bool" where
  "valid_pointer mem nullptr n = False"
| "valid_pointer mem (Addr b off) n =
     (case blocks mem b of None \<Rightarrow> False | Some bs \<Rightarrow> off + n \<le> length bs)"

fun load :: "memory \<Rightarrow> pointer \<Rightarrow> nat \<Rightarrow> byte list option" where
  "load mem nullptr n = None"
| "load mem (Addr b off) n =
     (case blocks mem b of
        None \<Rightarrow> None
      | Some bs \<Rightarrow> if off + n \<le> length bs then Some (take n (drop off bs)) else None)"

fun store :: "pointer \<Rightarrow> byte list \<Rightarrow> memory \<Rightarrow> memory option" where
  "store nullptr vs mem = None"
| "store (Addr b off) vs mem =
     (case blocks mem b of
        None \<Rightarrow> None
      | Some bs \<Rightarrow>
          if off + length vs \<le> length bs
          then Some (mem\<lparr>blocks := (blocks mem)(b \<mapsto> take off bs @ vs @ drop (off + length vs) bs)\<rparr>)
          else None)"

text \<open>custom_heap.hpp: the members \<^verbatim>\<open>data_\<close>, \<^verbatim>\<open>size_\<close>, \<^verbatim>\<open>capacity_\<close>.\<close>

record custom_heap =
  data :: pointer
  size_h :: size_t
  capacity :: size_t

text \<open>The default constructor.\<close>

definition custom_heap_empty :: custom_heap where
  "custom_heap_empty = \<lparr>data = nullptr, size_h = 0, capacity = 0\<rparr>"

text \<open>
  \<^verbatim>\<open>custom_heap::allocate\<close> (custom_heap.hpp, lines 52 to 79), branch by branch. A failed
  \<^verbatim>\<open>realloc\<close> sets \<^verbatim>\<open>size_\<close> and \<^verbatim>\<open>capacity_\<close> to 0 before it throws; the
  exception leaves the function, so the model returns the error alone.
\<close>

definition allocate :: "size_t \<Rightarrow> custom_heap \<Rightarrow> memory \<Rightarrow> error + (pointer \<times> custom_heap \<times> memory)" where
  "allocate sz h mem =
     (if size_h h + sz \<le> capacity h
      then Inr (ptr_add (data h) (unat (size_h h)), h\<lparr>size_h := size_h h + sz\<rparr>, mem)
      else if data h = nullptr
      then (case malloc (unat sz) mem of
              (nullptr, mem') \<Rightarrow> Inl (runtime_error ''Malloc failed'')
            | (p, mem') \<Rightarrow> Inr (p, h\<lparr>data := p, capacity := sz, size_h := sz\<rparr>, mem'))
      else (let new_capacity = (if size_h h + sz > capacity h * 2 then size_h h + sz else capacity h * 2)
            in case realloc (data h) (unat new_capacity) mem of
                 (nullptr, mem') \<Rightarrow> Inl (runtime_error ''Realloc failed'')
               | (p, mem') \<Rightarrow>
                   Inr (ptr_add p (unat (size_h h)),
                        h\<lparr>data := p, capacity := new_capacity, size_h := size_h h + sz\<rparr>, mem')))"

text \<open>\<^verbatim>\<open>custom_heap::clear\<close>: the memory is kept, only \<^verbatim>\<open>size_\<close> is reset.\<close>

definition clear_heap :: "custom_heap \<Rightarrow> custom_heap" where
  "clear_heap h = h\<lparr>size_h := 0\<rparr>"

subsection \<open>What a master does to the outside\<close>

text \<open>
  The calls of a master that other processes can observe, in the order it makes them:
  the barrier of \<^verbatim>\<open>Synchronize\<close>, the entry into each phase of a time step, the
  broadcast of an order by master 0, and the one-sided \<^verbatim>\<open>MPI_Get\<close> of
  \<^verbatim>\<open>GetPublicAttribute\<close> with its target master, displacement and datatype.
\<close>

datatype phase =
    UpdateAllPublicAttributes_phase
  | SendReceiveInteractions_phase
  | DistributeReceivedInteractions_phase
  | RunBehaviors_phase

datatype event =
    MPI_Barrier
  | Enter phase
  | MPI_Bcast_order Order
  | MPI_Get AgentGlobalId Attribute MasterId size_t MPI_Datatype

text \<open>
  The texts written to \<^verbatim>\<open>std::cerr\<close>, with the values they print: the warning
  of \<^verbatim>\<open>PushInteraction\<close> (sender id and type name, recipient id and type name), the
  three refusals of \<^verbatim>\<open>ModifyAttribute\<close>, and \<^verbatim>\<open>error_init\<close> of the user
  interface.
\<close>

datatype cerr_message =
    Warning_recipient_does_not_exist AgentId string AgentId string
  | Agent_type_does_not_exist AgentType
  | Attribute_not_sendable
  | Agent_does_not_exist AgentId string
  | error_init

text \<open>A point-to-point message: the payload of an \<^verbatim>\<open>MPI_Send\<close>.\<close>

datatype message = Attribute_id Attribute | Attribute_value "byte list"

subsection \<open>The state of a master\<close>

text \<open>
  The members of class \<^verbatim>\<open>Master\<close> (master.hpp, lines 339 to 583) that the modelled
  methods read or write, followed by the master's surroundings: the memory of its
  process, what it wrote to the standard error, the observable calls it made, the
  point-to-point messages sent to it and not yet received, and those it sent (with their
  destination). \<open>public_windows r\<close> is the content of the public window of master
  \<open>r\<close>, as a one-sided read sees it.
\<close>

record Master =
  step :: Time
  order :: Order
  period :: Time
  id_m :: MasterId
  nb_masters :: MasterId
  nb_types :: AgentType
  nb_interactions :: InteractionType
  maximal_ids :: "AgentId list"
  agent_ids_by_types :: "AgentId set list"
  masters :: "AgentGlobalId \<rightharpoonup> MasterId"
  agents :: "AgentGlobalId \<rightharpoonup> Agent"
  critical_attributes :: "(AgentType \<times> Attribute) set"
  attributes_sizes :: "AgentType \<times> Attribute \<rightharpoonup> size_t"
  attributes_MPI_types :: "AgentType \<times> Attribute \<rightharpoonup> MPI_Datatype"
  public_attributes_offsets :: "AgentType \<times> Attribute \<rightharpoonup> size_t"
  public_agents_offsets :: "AgentGlobalId \<rightharpoonup> size_t"
  public_attributes_struct_sizes :: "AgentType \<rightharpoonup> size_t"
  critical_attributes_offsets :: "AgentType \<times> Attribute \<rightharpoonup> size_t"
  critical_agents_offsets :: "AgentGlobalId \<rightharpoonup> size_t"
  critical_attributes_struct_sizes :: "AgentType \<rightharpoonup> size_t"
  agent_type_to_string :: "AgentType \<rightharpoonup> string"
  received_interactions :: "Interaction list"
  interactions_to_send :: "Interaction list list"
  received_public_attributes :: "AgentGlobalId \<times> Attribute \<rightharpoonup> pointer"
  stored_public_attributes :: custom_heap
  PublicWindowsDescription :: "WindowDescription list"
  CriticalWindowDescription :: WindowDescription
  begin_critical_window :: pointer
  mem :: memory
  public_windows :: "MasterId \<Rightarrow> byte list"
  cerr :: "cerr_message list"
  trace :: "event list"
  inbox :: "message list"
  outbox :: "(MasterId \<times> message) list"

text \<open>
  \<^verbatim>\<open>std::vector::at\<close> with a \<^verbatim>\<open>size_t\<close> index, and \<^verbatim>\<open>at\<close> of the maps.
\<close>

definition vector_at :: "'a list \<Rightarrow> size_t \<Rightarrow> error + 'a" where
  "vector_at xs i = (if unat i < length xs then Inr (xs ! unat i) else Inl out_of_range)"

definition map_at :: "('k \<rightharpoonup> 'v) \<Rightarrow> 'k \<Rightarrow> error + 'v" where
  "map_at f k = (case f k of None \<Rightarrow> Inl out_of_range | Some v \<Rightarrow> Inr v)"

subsection \<open>Agent identifiers (master.cpp, lines 396 to 408)\<close>

definition LocalToGlobalId :: "Master \<Rightarrow> AgentId \<Rightarrow> AgentType \<Rightarrow> AgentGlobalId" where
  "LocalToGlobalId m ident type = nb_types m * ident + type"

text \<open>
  \<^verbatim>\<open>id / nb_types_\<close> and \<^verbatim>\<open>id % nb_types_\<close>: with no agent type the division is
  undefined in C++ (in HOL it would be 0), so it is an error of the model.
\<close>

definition GlobalToLocalId :: "Master \<Rightarrow> AgentGlobalId \<Rightarrow> error + AgentId" where
  "GlobalToLocalId m g = (if nb_types m = 0 then Inl division_by_zero else Inr (g div nb_types m))"

definition GlobalToLocalType :: "Master \<Rightarrow> AgentGlobalId \<Rightarrow> error + AgentType" where
  "GlobalToLocalType m g = (if nb_types m = 0 then Inl division_by_zero else Inr (g mod nb_types m))"

text \<open>
  The constructor of \<^verbatim>\<open>Master\<close> (master.cpp, lines 32 to 71) up to the call of
  \<^verbatim>\<open>InitializeAgents\<close>, for a model with \<open>T\<close> agent types, \<open>I\<close> interaction types
  and an empty catalog (the \<^verbatim>\<open>Create...\<close> functions are generated by the
  precompilation; a catalog is set with record updates), in a process whose C library
  follows \<open>mok\<close> and \<open>rhow\<close>.
\<close>

definition Master_init ::
  "MasterId \<Rightarrow> MasterId \<Rightarrow> AgentType \<Rightarrow> InteractionType \<Rightarrow> (nat \<Rightarrow> bool) \<Rightarrow> (nat \<Rightarrow> nat \<Rightarrow> realloc_outcome) \<Rightarrow> Master" where
  "Master_init i n T I mok rhow =
     \<lparr>step = 0, order = IDLE, period = 1, id_m = i, nb_masters = n,
      nb_types = T, nb_interactions = I,
      maximal_ids = [], agent_ids_by_types = [],
      masters = Map.empty, agents = Map.empty,
      critical_attributes = {},
      attributes_sizes = Map.empty, attributes_MPI_types = Map.empty,
      public_attributes_offsets = Map.empty, public_agents_offsets = Map.empty,
      public_attributes_struct_sizes = Map.empty,
      critical_attributes_offsets = Map.empty, critical_agents_offsets = Map.empty,
      critical_attributes_struct_sizes = Map.empty,
      agent_type_to_string = Map.empty,
      received_interactions = [],
      interactions_to_send = replicate (unat (word_of_int n * I :: u64)) [],
      received_public_attributes = Map.empty,
      stored_public_attributes = custom_heap_empty,
      PublicWindowsDescription = [],
      CriticalWindowDescription = \<lparr>size_w = 0, used = 0\<rparr>,
      begin_critical_window = nullptr,
      mem = \<lparr>blocks = Map.empty, next_block = 0, malloc_ok = mok, realloc_how = rhow\<rparr>,
      public_windows = (\<lambda>r. []),
      cerr = [], trace = [], inbox = [], outbox = []\<rparr>"


subsection \<open>Sequencing calls that can throw\<close>

definition then_do :: "error + 'a \<Rightarrow> ('a \<Rightarrow> error + 'b) \<Rightarrow> error + 'b" where
  "then_do r f = (case r of Inl e \<Rightarrow> Inl e | Inr x \<Rightarrow> f x)"

subsection \<open>Queries on the catalog and on the agents (master.cpp, lines 104 to 106 and 425 to 446)\<close>

definition DoesAgentExist :: "Master \<Rightarrow> AgentId \<Rightarrow> AgentType \<Rightarrow> error + bool" where
  "DoesAgentExist m ident type =
     then_do (vector_at (agent_ids_by_types m) type) (\<lambda>ids. Inr (ident \<in> ids))"

definition IsCritical :: "Master \<Rightarrow> Attribute \<Rightarrow> AgentType \<Rightarrow> bool" where
  "IsCritical m attr type = ((type, attr) \<in> critical_attributes m)"

text \<open>
  \<^verbatim>\<open>attributes_sizes_.find(std::make_pair(attr, type))\<close>: the pair is built in the
  order (attr, type), and the keys of \<^verbatim>\<open>AttributesSizes\<close> are pairs of an
  \<^verbatim>\<open>AgentType\<close> and an \<^verbatim>\<open>Attribute\<close> (types.hpp, line 67).
\<close>

definition IsAttributeSendable :: "Master \<Rightarrow> Attribute \<Rightarrow> AgentType \<Rightarrow> bool" where
  "IsAttributeSendable m attr type = (attributes_sizes m (attr, type) \<noteq> None)"

text \<open>
  \<^verbatim>\<open>get_if_exists\<close> of the cache returns a pair of a value and a flag;
  \<^verbatim>\<open>HasReceivedAttribute\<close> copies the value into \<^verbatim>\<open>location\<close> when the flag is
  set. Both are the option \<open>received_public_attributes m (id, attr)\<close>.
\<close>

definition HasReceivedAttribute :: "Master \<Rightarrow> Attribute \<Rightarrow> AgentGlobalId \<Rightarrow> pointer option" where
  "HasReceivedAttribute m attr ident = received_public_attributes m (ident, attr)"

subsection \<open>\<^verbatim>\<open>Master::PushInteraction\<close> (master.cpp, lines 159 to 171)\<close>

definition PushInteraction :: "Interaction \<Rightarrow> Master \<Rightarrow> error + Master" where
  "PushInteraction interaction m =
     (let type = type_i interaction;
          recipient = LocalToGlobalId m (recipient_id interaction) (recipient_type interaction)
      in then_do (DoesAgentExist m (recipient_id interaction) (recipient_type interaction)) (\<lambda>exists.
           if exists
           then then_do (map_at (masters m) recipient) (\<lambda>recipient_master.
                  let i = word_of_int recipient_master * nb_interactions m + type
                  in then_do (vector_at (interactions_to_send m) i) (\<lambda>bucket.
                       Inr (m\<lparr>interactions_to_send := (interactions_to_send m)[unat i := bucket @ [interaction]]\<rparr>)))
           else then_do (map_at (agent_type_to_string m) (sender_type interaction)) (\<lambda>sender_name.
                  then_do (map_at (agent_type_to_string m) (recipient_type interaction)) (\<lambda>recipient_name.
                    Inr (m\<lparr>cerr := cerr m @
                          [Warning_recipient_does_not_exist (sender_id interaction) sender_name
                             (recipient_id interaction) recipient_name]\<rparr>)))))"

subsection \<open>Reading attributes (master.cpp, lines 125 to 145 and 650 to 675)\<close>

definition PublicTargetDisp :: "Master \<Rightarrow> AgentGlobalId \<Rightarrow> Attribute \<Rightarrow> error + size_t" where
  "PublicTargetDisp m ident attr =
     then_do (GlobalToLocalType m ident) (\<lambda>type.
       then_do (map_at (public_agents_offsets m) ident) (\<lambda>a.
         then_do (map_at (public_attributes_offsets m) (type, attr)) (\<lambda>b. Inr (a + b))))"

text \<open>
  \<^verbatim>\<open>MPI_Get\<close> of \<open>n\<close> bytes at displacement \<open>disp\<close> of the public window of
  master \<open>r\<close> into \<open>location\<close>. The transfer is taken as done when the call returns
  (in MPI it is only guaranteed at the end of the access epoch).
\<close>

definition rma_read :: "byte list \<Rightarrow> nat \<Rightarrow> nat \<Rightarrow> byte list" where
  "rma_read window disp n = take n (drop disp window)"

definition MPI_Get_public :: "pointer \<Rightarrow> MasterId \<Rightarrow> size_t \<Rightarrow> size_t \<Rightarrow> Master \<Rightarrow> memory" where
  "MPI_Get_public location r disp n m =
     (case store location (rma_read (public_windows m r) (unat disp) (unat n)) (mem m) of
        None \<Rightarrow> mem m
      | Some mem' \<Rightarrow> mem')"

definition GetPublicAttribute :: "Attribute \<Rightarrow> AgentGlobalId \<Rightarrow> Master \<Rightarrow> error + (pointer \<times> Master)" where
  "GetPublicAttribute attr recipient m =
     then_do (GlobalToLocalType m recipient) (\<lambda>agent_type.
       case HasReceivedAttribute m attr recipient of
         Some location \<Rightarrow> Inr (location, m)
       | None \<Rightarrow>
           then_do (map_at (masters m) recipient) (\<lambda>master_recipient_id.
           then_do (map_at (attributes_MPI_types m) (agent_type, attr)) (\<lambda>MPI_attr_type.
           then_do (PublicTargetDisp m recipient attr) (\<lambda>target_disp.
           then_do (map_at (attributes_sizes m) (agent_type, attr)) (\<lambda>sz.
           then_do (allocate sz (stored_public_attributes m) (mem m)) (\<lambda>(storage_location, heap', mem').
             let m1 = m\<lparr>stored_public_attributes := heap', mem := mem',
                        received_public_attributes :=
                          (received_public_attributes m)((recipient, attr) \<mapsto> storage_location)\<rparr>;
                 m2 = m1\<lparr>mem := MPI_Get_public storage_location master_recipient_id target_disp sz m1,
                         trace := trace m1 @ [MPI_Get recipient attr master_recipient_id target_disp MPI_attr_type]\<rparr>
             in Inr (storage_location, m2)))))))"

definition GetCriticalAttribute :: "Attribute \<Rightarrow> AgentGlobalId \<Rightarrow> Master \<Rightarrow> error + pointer" where
  "GetCriticalAttribute attr recipient m =
     then_do (GlobalToLocalType m recipient) (\<lambda>type.
       then_do (map_at (critical_agents_offsets m) recipient) (\<lambda>a.
         then_do (map_at (critical_attributes_offsets m) (type, attr)) (\<lambda>b.
           Inr (ptr_add (begin_critical_window m) (unat (a + b))))))"

definition GetAttribute :: "Attribute \<Rightarrow> AgentId \<Rightarrow> AgentType \<Rightarrow> Master \<Rightarrow> error + (pointer \<times> Master)" where
  "GetAttribute attr recipient_id' recipient_type' m =
     (let ident = LocalToGlobalId m recipient_id' recipient_type'
      in then_do (DoesAgentExist m recipient_id' recipient_type') (\<lambda>exists.
           if \<not> exists
           then then_do (map_at (agent_type_to_string m) recipient_type') (\<lambda>name.
                  Inl (AgentNotFound recipient_id' name))
           else if IsCritical m attr recipient_type'
           then then_do (GetCriticalAttribute attr ident m) (\<lambda>p. Inr (p, m))
           else GetPublicAttribute attr ident m))"


subsection \<open>The user model, the handler threads and the peers\<close>

text \<open>
  The behaviours of the agents are generated from the user's model and call the master
  through \<^verbatim>\<open>Agent::AskAttribute\<close> and \<^verbatim>\<open>Agent::SendMessage\<close> (agent.cpp). The
  user model is a parameter: \<open>Behavior env m\<close> gives, for each agent handler of master
  \<open>m\<close>, the sequence of these calls that the behaviours of its agents make during one
  time step. \<^verbatim>\<open>RunBehaviors\<close> runs each handler in a thread of its own
  (master.cpp, lines 639 to 645), so the calls of different handlers interleave; the
  scheduler is a parameter too: \<open>schedule env m\<close> is the sequence of the threads that
  get to make their next step, for as long as it lasts (after it the threads are joined
  in turn). \<open>incoming env m\<close> are the interactions that the peers deliver to \<open>m\<close> in
  \<^verbatim>\<open>SendReceiveInteractions\<close>.
\<close>

datatype action = AskAttribute Attribute AgentId AgentType | SendMessage Interaction

record environment =
  Behavior :: "Master \<Rightarrow> action list list"
  schedule :: "Master \<Rightarrow> nat list"
  incoming :: "Master \<Rightarrow> Interaction list"

text \<open>
  The steps of a thread. What a thread does under one lock, or to data that no other
  thread writes during the behaviours, is one step; \<^verbatim>\<open>GetPublicAttribute\<close> on a miss
  is four of them, and another thread can run between any two:
  \<^item> the lookup in the cache (\<^verbatim>\<open>get_if_exists\<close>, under the shared lock of the map),
    with the checks of \<^verbatim>\<open>GetAttribute\<close> that precede it;
  \<^item> lines 658 to 661: the reads of the catalog and \<^verbatim>\<open>allocate\<close>. The arena has no
    lock, so two concurrent calls of \<^verbatim>\<open>allocate\<close> are a data race; the model lets each
    call run alone, which is the most the code can hope for;
  \<^item> line 662: \<^verbatim>\<open>set\<close>, under the unique lock of the map;
  \<^item> line 663: \<^verbatim>\<open>MPI_Get\<close>.
  \<open>progress\<close> is where a thread stands in its current call, with the local variables
  of the call: \<open>Idle\<close> between two calls, \<open>Missed\<close> after a lookup that found
  nothing, \<open>Allocated\<close> after \<^verbatim>\<open>allocate\<close>, \<open>Inserted\<close> after \<^verbatim>\<open>set\<close>.
\<close>

datatype progress =
    Idle_thread
  | Missed Attribute AgentGlobalId AgentType
  | Allocated Attribute AgentGlobalId MasterId MPI_Datatype size_t size_t pointer
  | Inserted Attribute AgentGlobalId MasterId MPI_Datatype size_t size_t pointer

datatype thread = Thread progress "action list"

text \<open>
  \<^verbatim>\<open>GetAttribute\<close> up to the lookup of \<^verbatim>\<open>GetPublicAttribute\<close>: the call is over
  (\<open>Idle_thread\<close>) when the attribute is critical or the cache holds the pair.
\<close>

definition GetAttribute_lookup :: "Attribute \<Rightarrow> AgentId \<Rightarrow> AgentType \<Rightarrow> Master \<Rightarrow> error + progress" where
  "GetAttribute_lookup attr recipient_id' recipient_type' m =
     (let ident = LocalToGlobalId m recipient_id' recipient_type'
      in then_do (DoesAgentExist m recipient_id' recipient_type') (\<lambda>exists.
           if \<not> exists
           then then_do (map_at (agent_type_to_string m) recipient_type') (\<lambda>name.
                  Inl (AgentNotFound recipient_id' name))
           else if IsCritical m attr recipient_type'
           then then_do (GetCriticalAttribute attr ident m) (\<lambda>p. Inr Idle_thread)
           else then_do (GlobalToLocalType m ident) (\<lambda>agent_type.
                  case HasReceivedAttribute m attr ident of
                    Some location \<Rightarrow> Inr Idle_thread
                  | None \<Rightarrow> Inr (Missed attr ident agent_type))))"

definition GetPublicAttribute_allocate ::
  "Attribute \<Rightarrow> AgentGlobalId \<Rightarrow> AgentType \<Rightarrow> Master \<Rightarrow> error + (progress \<times> Master)" where
  "GetPublicAttribute_allocate attr recipient agent_type' m =
     then_do (map_at (masters m) recipient) (\<lambda>master_recipient_id.
     then_do (map_at (attributes_MPI_types m) (agent_type', attr)) (\<lambda>MPI_attr_type.
     then_do (PublicTargetDisp m recipient attr) (\<lambda>target_disp.
     then_do (map_at (attributes_sizes m) (agent_type', attr)) (\<lambda>sz.
     then_do (allocate sz (stored_public_attributes m) (mem m)) (\<lambda>(storage_location, heap', mem').
       Inr (Allocated attr recipient master_recipient_id MPI_attr_type target_disp sz storage_location,
            m\<lparr>stored_public_attributes := heap', mem := mem'\<rparr>))))))"

definition GetPublicAttribute_set :: "Attribute \<Rightarrow> AgentGlobalId \<Rightarrow> pointer \<Rightarrow> Master \<Rightarrow> Master" where
  "GetPublicAttribute_set attr recipient storage_location m =
     m\<lparr>received_public_attributes :=
         (received_public_attributes m)((recipient, attr) \<mapsto> storage_location)\<rparr>"

definition GetPublicAttribute_get ::
  "Attribute \<Rightarrow> AgentGlobalId \<Rightarrow> MasterId \<Rightarrow> MPI_Datatype \<Rightarrow> size_t \<Rightarrow> size_t \<Rightarrow> pointer \<Rightarrow> Master \<Rightarrow> Master" where
  "GetPublicAttribute_get attr recipient master_recipient_id MPI_attr_type target_disp sz storage_location m =
     m\<lparr>mem := MPI_Get_public storage_location master_recipient_id target_disp sz m,
       trace := trace m @ [MPI_Get recipient attr master_recipient_id target_disp MPI_attr_type]\<rparr>"

text \<open>
  One step of a thread. \<^verbatim>\<open>PushInteraction\<close> is one step: it reads what no thread
  writes and appends to a \<^verbatim>\<open>thread_safe_vector\<close> under its lock. A thread that has
  made all its calls stays as it is.
\<close>

fun thread_step :: "thread \<Rightarrow> Master \<Rightarrow> error + (thread \<times> Master)" where
  "thread_step (Thread Idle_thread []) m = Inr (Thread Idle_thread [], m)"
| "thread_step (Thread Idle_thread (AskAttribute attr ident type # rest)) m =
     then_do (GetAttribute_lookup attr ident type m) (\<lambda>pr. Inr (Thread pr rest, m))"
| "thread_step (Thread Idle_thread (SendMessage interaction # rest)) m =
     then_do (PushInteraction interaction m) (\<lambda>m'. Inr (Thread Idle_thread rest, m'))"
| "thread_step (Thread (Missed attr g agent_type') rest) m =
     then_do (GetPublicAttribute_allocate attr g agent_type' m) (\<lambda>(pr, m'). Inr (Thread pr rest, m'))"
| "thread_step (Thread (Allocated attr g r ty d sz location) rest) m =
     Inr (Thread (Inserted attr g r ty d sz location) rest, GetPublicAttribute_set attr g location m)"
| "thread_step (Thread (Inserted attr g r ty d sz location) rest) m =
     Inr (Thread Idle_thread rest, GetPublicAttribute_get attr g r ty d sz location m)"

text \<open>The steps that a thread still has to make, at most.\<close>

fun steps_left :: "thread \<Rightarrow> nat" where
  "steps_left (Thread Idle_thread rest) = 4 * length rest"
| "steps_left (Thread (Missed attr g agent_type') rest) = 3 + 4 * length rest"
| "steps_left (Thread (Allocated attr g r ty d sz location) rest) = 2 + 4 * length rest"
| "steps_left (Thread (Inserted attr g r ty d sz location) rest) = 1 + 4 * length rest"

text \<open>
  The scheduler: the thread of index \<open>i\<close> makes a step (an index that names no thread
  is passed over).
\<close>

fun run_schedule :: "nat list \<Rightarrow> thread list \<Rightarrow> Master \<Rightarrow> error + (thread list \<times> Master)" where
  "run_schedule [] ts m = Inr (ts, m)"
| "run_schedule (i # later) ts m =
     (if i < length ts
      then (case thread_step (ts ! i) m of
              Inl e \<Rightarrow> Inl e
            | Inr (t', m') \<Rightarrow> run_schedule later (ts[i := t']) m')
      else run_schedule later ts m)"

text \<open>\<^verbatim>\<open>threads.at(i).join()\<close>: the thread runs until it has made all its calls.\<close>

function join :: "thread \<Rightarrow> Master \<Rightarrow> error + Master" where
  "join (Thread Idle_thread []) m = Inr m"
| "join (Thread Idle_thread (a # rest)) m =
     (case thread_step (Thread Idle_thread (a # rest)) m of
        Inl e \<Rightarrow> Inl e
      | Inr (t', m') \<Rightarrow> join t' m')"
| "join (Thread (Missed attr g agent_type') rest) m =
     (case thread_step (Thread (Missed attr g agent_type') rest) m of
        Inl e \<Rightarrow> Inl e
      | Inr (t', m') \<Rightarrow> join t' m')"
| "join (Thread (Allocated attr g r ty d sz location) rest) m =
     (case thread_step (Thread (Allocated attr g r ty d sz location) rest) m of
        Inl e \<Rightarrow> Inl e
      | Inr (t', m') \<Rightarrow> join t' m')"
| "join (Thread (Inserted attr g r ty d sz location) rest) m =
     (case thread_step (Thread (Inserted attr g r ty d sz location) rest) m of
        Inl e \<Rightarrow> Inl e
      | Inr (t', m') \<Rightarrow> join t' m')"
  by pat_completeness auto
termination
proof (relation "measure (\<lambda>(t, m). steps_left t)")
  show "wf (measure (\<lambda>(t, m). steps_left t))"
    by simp
next
  fix a rest m x2 t' m'
  assume "thread_step (Thread Idle_thread (a # rest)) m = Inr x2" and "(t', m') = x2"
  then show "((t', m'), Thread Idle_thread (a # rest), m) \<in> measure (\<lambda>(t, m). steps_left t)"
    by (cases a)
       (auto simp: then_do_def GetAttribute_lookup_def Let_def
             split: sum.splits if_splits option.splits)
next
  fix attr g agent_type' rest m x2 t' m'
  assume "thread_step (Thread (Missed attr g agent_type') rest) m = Inr x2" and "(t', m') = x2"
  then show "((t', m'), Thread (Missed attr g agent_type') rest, m) \<in> measure (\<lambda>(t, m). steps_left t)"
    by (auto simp: then_do_def GetPublicAttribute_allocate_def split: sum.splits prod.splits)
next
  fix attr g r ty d sz location rest m x2 t' m'
  assume "thread_step (Thread (Allocated attr g r ty d sz location) rest) m = Inr x2" and "(t', m') = x2"
  then show "((t', m'), Thread (Allocated attr g r ty d sz location) rest, m)
               \<in> measure (\<lambda>(t, m). steps_left t)"
    by auto
next
  fix attr g r ty d sz location rest m x2 t' m'
  assume "thread_step (Thread (Inserted attr g r ty d sz location) rest) m = Inr x2" and "(t', m') = x2"
  then show "((t', m'), Thread (Inserted attr g r ty d sz location) rest, m)
               \<in> measure (\<lambda>(t, m). steps_left t)"
    by auto
qed

fun join_all :: "thread list \<Rightarrow> Master \<Rightarrow> error + Master" where
  "join_all [] m = Inr m"
| "join_all (t # ts) m = then_do (join t m) (join_all ts)"

subsection \<open>The phases of a time step (master.cpp, lines 618 to 754)\<close>

definition Synchronize :: "Master \<Rightarrow> Master" where
  "Synchronize m = m\<lparr>trace := trace m @ [MPI_Barrier]\<rparr>"

definition enter :: "phase \<Rightarrow> Master \<Rightarrow> Master" where
  "enter ph m = m\<lparr>trace := trace m @ [Enter ph]\<rparr>"

text \<open>
  \<^verbatim>\<open>UpdateAllPublicAttributes\<close> copies the public attributes of the local agents into
  the public window and puts the modified critical attributes into the critical windows.
  The contents of the windows are inputs of this model (\<open>public_windows\<close>, \<open>mem\<close>),
  so only the entry into the phase is recorded.
\<close>

definition UpdateAllPublicAttributes :: "Master \<Rightarrow> Master" where
  "UpdateAllPublicAttributes m = enter UpdateAllPublicAttributes_phase m"

text \<open>
  \<^verbatim>\<open>SendReceiveInteractions\<close>: the counting loop reads
  \<^verbatim>\<open>interactions_to_send_.at(i)\<close> for every \<open>i\<close> below
  \<^verbatim>\<open>nb_masters_*nb_interactions_\<close>; the interactions received are appended to
  \<^verbatim>\<open>received_interactions_\<close>; every bucket is cleared.
\<close>

definition SendReceiveInteractions :: "environment \<Rightarrow> Master \<Rightarrow> error + Master" where
  "SendReceiveInteractions env m0 =
     (let m = enter SendReceiveInteractions_phase m0
      in if length (interactions_to_send m) < unat (word_of_int (nb_masters m) * nb_interactions m :: u64)
         then Inl out_of_range
         else Inr (m\<lparr>received_interactions := received_interactions m @ incoming env m,
                     interactions_to_send := map (\<lambda>x. []) (interactions_to_send m)\<rparr>))"

fun distribute :: "Interaction list \<Rightarrow> Master \<Rightarrow> error + Master" where
  "distribute [] m = Inr m"
| "distribute (x # xs) m =
     (let agent = LocalToGlobalId m (recipient_id x) (recipient_type x)
      in then_do (map_at (agents m) agent) (\<lambda>a.
           distribute xs (m\<lparr>agents := (agents m)(agent \<mapsto> a\<lparr>received := received a @ [x]\<rparr>)\<rparr>)))"

definition DistributeReceivedInteractions :: "Master \<Rightarrow> error + Master" where
  "DistributeReceivedInteractions m0 =
     then_do (distribute (received_interactions m0) (enter DistributeReceivedInteractions_phase m0))
       (\<lambda>m. Inr (m\<lparr>received_interactions := []\<rparr>))"

text \<open>The calls of one handler made one after the other, with no other thread in between.\<close>

fun run_action :: "action \<Rightarrow> Master \<Rightarrow> error + Master" where
  "run_action (AskAttribute attr ident type) m =
     then_do (GetAttribute attr ident type m) (\<lambda>(p, m'). Inr m')"
| "run_action (SendMessage interaction) m = PushInteraction interaction m"

fun run_actions :: "action list \<Rightarrow> Master \<Rightarrow> error + Master" where
  "run_actions [] m = Inr m"
| "run_actions (a # as) m = then_do (run_action a m) (run_actions as)"

text \<open>
  \<^verbatim>\<open>RunBehaviors\<close>: the cache and its arena are cleared; one thread per handler is
  started; the threads make their steps as the scheduler has it and are then joined;
  each agent has forgotten the messages it had received (\<^verbatim>\<open>ResetMessages\<close>,
  agent_handler.cpp, line 28).
\<close>

definition RunBehaviors :: "environment \<Rightarrow> Master \<Rightarrow> error + Master" where
  "RunBehaviors env m0 =
     (let m = enter RunBehaviors_phase
                (m0\<lparr>received_public_attributes := Map.empty,
                    stored_public_attributes := clear_heap (stored_public_attributes m0)\<rparr>);
          threads = map (Thread Idle_thread) (Behavior env m)
      in then_do (run_schedule (schedule env m) threads m) (\<lambda>(threads', m1).
         then_do (join_all threads' m1) (\<lambda>m'.
           Inr (m'\<lparr>agents := (\<lambda>g. map_option (\<lambda>a. a\<lparr>received := []\<rparr>) (agents m' g))\<rparr>))))"

subsection \<open>\<^verbatim>\<open>Master::RunTimeStep\<close> (master.cpp, lines 806 to 819)\<close>

definition RunTimeStep :: "environment \<Rightarrow> Master \<Rightarrow> error + Master" where
  "RunTimeStep env m =
     (let m1 = UpdateAllPublicAttributes (m\<lparr>step := step m + 1\<rparr>);
          m2 = Synchronize m1;
          m3 = Synchronize m2
      in then_do (SendReceiveInteractions env m3) (\<lambda>m4.
         then_do (DistributeReceivedInteractions (Synchronize m4)) (\<lambda>m5.
         then_do (RunBehaviors env (Synchronize m5)) (\<lambda>m6.
         Inr (Synchronize m6)))))"

subsection \<open>Control methods (master.cpp, lines 174 to 260)\<close>

text \<open>
  The loop \<^verbatim>\<open>for (Time t=0; t<period_; t++) RunTimeStep();\<close> makes \<open>unat period\<close>
  iterations: a time step does not write \<^verbatim>\<open>period_\<close> (lemma \<open>RunTimeStep_Inr\<close>
  below).
\<close>

fun run_steps :: "nat \<Rightarrow> environment \<Rightarrow> Master \<Rightarrow> error + Master" where
  "run_steps 0 env m = Inr m"
| "run_steps (Suc n) env m = then_do (RunTimeStep env m) (run_steps n env)"

definition RunSimulation :: "environment \<Rightarrow> Master \<Rightarrow> error + Master" where
  "RunSimulation env m =
     (let m1 = (if id_m m = 0
                then m\<lparr>order := RUN_SIMULATION, trace := trace m @ [MPI_Bcast_order RUN_SIMULATION]\<rparr>
                else m)
      in run_steps (unat (period m1)) env m1)"

text \<open>
  \<^verbatim>\<open>MPI_Bcast(&period_, ...)\<close> leaves the buffer of master 0 as it is and writes the
  value of master 0, here \<open>root_period\<close>, into the buffer of the others.
\<close>

definition ChangePeriod :: "Time \<Rightarrow> Time \<Rightarrow> Master \<Rightarrow> Master" where
  "ChangePeriod root_period new_period m =
     (let m1 = (if id_m m = 0
                then m\<lparr>order := CHANGE_PERIOD, trace := trace m @ [MPI_Bcast_order CHANGE_PERIOD],
                       period := new_period\<rparr>
                else m)
      in if id_m m1 = 0 then m1 else m1\<lparr>period := root_period\<rparr>)"

text \<open>
  \<^verbatim>\<open>ModifyAttribute\<close>. \<open>location\<close> is the content of the memory that the pointer
  \<^verbatim>\<open>location\<close> points to, \<open>None\<close> for \<^verbatim>\<open>nullptr\<close>; \<open>root_id\<close> is the global
  identifier broadcast by master 0. A master other than 0 runs the method from
  \<^verbatim>\<open>WaitOrderFromRoot\<close> with the default arguments (0, 0, 0, \<^verbatim>\<open>nullptr\<close>).
  A receive takes the oldest message sent to the master, whatever the datatype it is
  called with; the two messages of master 0 are told apart by their kind.
  \<open>overwrite new old\<close> is the content of a buffer holding \<open>old\<close> after \<open>new\<close> was
  written at its start.
\<close>

definition overwrite :: "byte list \<Rightarrow> byte list \<Rightarrow> byte list" where
  "overwrite new old = new @ drop (length new) old"

text \<open>Lines 237 to 259: what every master does after the checks of master 0.\<close>

definition ModifyAttribute_transfer ::
  "AgentGlobalId \<Rightarrow> Attribute \<Rightarrow> byte list option \<Rightarrow> Master \<Rightarrow> error + Master" where
  "ModifyAttribute_transfer recipient_global_id attr location m =
     then_do (map_at (masters m) recipient_global_id) (\<lambda>recipient_master.
     then_do (GlobalToLocalType m recipient_global_id) (\<lambda>type.
       let p = (type, attr)
       in if recipient_master \<noteq> 0
          then (if id_m m = 0
                then then_do (map_at (attributes_MPI_types m) p) (\<lambda>ty.
                       case location of
                         None \<Rightarrow> Inl null_dereference
                       | Some bytes \<Rightarrow>
                           Inr (m\<lparr>outbox := outbox m @
                                  [(recipient_master, Attribute_id attr),
                                   (recipient_master, Attribute_value bytes)]\<rparr>))
                else then_do (map_at (attributes_MPI_types m) p) (\<lambda>ty.
                       case inbox m of
                         [] \<Rightarrow> Inl blocked_in_MPI_Recv
                       | Attribute_value bytes # rest \<Rightarrow> Inl MPI_type_mismatch
                       | Attribute_id attribute_to_modify # rest \<Rightarrow>
                           then_do (map_at (agents m) recipient_global_id) (\<lambda>a.
                             case rest of
                               [] \<Rightarrow> Inl blocked_in_MPI_Recv
                             | Attribute_id x # rest' \<Rightarrow> Inl MPI_type_mismatch
                             | Attribute_value bytes # rest' \<Rightarrow>
                                 (case attributes a attribute_to_modify of
                                    None \<Rightarrow> Inl null_dereference
                                  | Some old \<Rightarrow>
                                      Inr (m\<lparr>inbox := rest',
                                             agents := (agents m)(recipient_global_id \<mapsto>
                                               a\<lparr>attributes := (attributes a)
                                                    (attribute_to_modify \<mapsto> overwrite bytes old)\<rparr>)\<rparr>)))))
          else then_do (map_at (agents m) recipient_global_id) (\<lambda>a.
               then_do (map_at (attributes_sizes m) p) (\<lambda>sz.
                 case attributes a attr of
                   None \<Rightarrow> Inl null_dereference
                 | Some old \<Rightarrow>
                     (case location of
                        None \<Rightarrow> Inl null_dereference
                      | Some bytes \<Rightarrow>
                          Inr (m\<lparr>agents := (agents m)(recipient_global_id \<mapsto>
                                 a\<lparr>attributes := (attributes a)
                                      (attr \<mapsto> overwrite (take (unat sz) bytes) old)\<rparr>)\<rparr>))))))"

definition ModifyAttribute ::
  "AgentGlobalId \<Rightarrow> Attribute \<Rightarrow> AgentId \<Rightarrow> AgentType \<Rightarrow> byte list option \<Rightarrow> Master \<Rightarrow> error + Master" where
  "ModifyAttribute root_id attr agent_id' agent_type' location m =
     (let recipient_global_id = LocalToGlobalId m agent_id' agent_type'
      in if id_m m = 0
         then (if agent_type' \<ge> nb_types m
               then Inr (m\<lparr>cerr := cerr m @ [Agent_type_does_not_exist agent_type']\<rparr>)
               else if \<not> IsAttributeSendable m attr agent_type'
               then Inr (m\<lparr>cerr := cerr m @ [Attribute_not_sendable]\<rparr>)
               else then_do (DoesAgentExist m agent_id' agent_type') (\<lambda>exists.
                      if \<not> exists
                      then then_do (map_at (agent_type_to_string m) agent_type') (\<lambda>name.
                             Inr (m\<lparr>cerr := cerr m @ [Agent_does_not_exist agent_id' name]\<rparr>))
                      else ModifyAttribute_transfer recipient_global_id attr location
                             (m\<lparr>order := MODIFY_ATTRIBUTE,
                                trace := trace m @ [MPI_Bcast_order MODIFY_ATTRIBUTE]\<rparr>)))
         else ModifyAttribute_transfer root_id attr location m)"

subsection \<open>The commands \<^verbatim>\<open>run\<close> and \<^verbatim>\<open>set_period\<close> (user_interface.cpp, lines 106 to 133)\<close>

datatype Control = Control_IDLE | Control_INIT | Control_RUN | Control_CHANGE_NB_THREADS | Control_EXIT

text \<open>
  The variables of the user interface of process 0: \<^verbatim>\<open>control\<close>, \<^verbatim>\<open>run\<close>,
  \<^verbatim>\<open>is_alive\<close>, the pointer \<^verbatim>\<open>master\<close> (\<open>None\<close> when it is null) and what the
  interface wrote to the standard error.
\<close>

record user_interface =
  control :: Control
  run :: bool
  is_alive :: bool
  master :: "Master option"
  ui_cerr :: "cerr_message list"

text \<open>
  A command after \<^verbatim>\<open>input >> command\<close>: \<open>Run n\<close> carries the result of
  \<^verbatim>\<open>input >> n_steps\<close> (\<open>None\<close> when no number could be read), \<open>Set_period k\<close>
  the period read.
\<close>

datatype command = Run "int option" | Set_period Time

fun run_simulations :: "nat \<Rightarrow> environment \<Rightarrow> Master \<Rightarrow> error + Master" where
  "run_simulations 0 env m = Inr m"
| "run_simulations (Suc k) env m = then_do (RunSimulation env m) (run_simulations k env)"

text \<open>
  The loop \<^verbatim>\<open>for (int k = 0; k<n_steps; k++)\<close> makes \<open>nat n_steps\<close> iterations
  (none when \<^verbatim>\<open>n_steps\<close> is negative). The master of process 0 is built with the
  identifier 0, so the period it broadcasts is its own.
\<close>

fun Parse :: "command \<Rightarrow> environment \<Rightarrow> user_interface \<Rightarrow> error + user_interface" where
  "Parse (Run n_steps) env ui =
     (if is_alive ui
      then (case n_steps of
              Some n \<Rightarrow>
                (case master ui of
                   None \<Rightarrow> if n \<le> 0 then Inr (ui\<lparr>control := Control_RUN\<rparr>) else Inl null_dereference
                 | Some m \<Rightarrow>
                     then_do (run_simulations (nat n) env m) (\<lambda>m'.
                       Inr (ui\<lparr>control := Control_RUN, master := Some m'\<rparr>)))
            | None \<Rightarrow> Inr (ui\<lparr>control := Control_RUN, run := True\<rparr>))
      else Inr (ui\<lparr>ui_cerr := ui_cerr ui @ [error_init]\<rparr>))"
| "Parse (Set_period new_period) env ui =
     (if is_alive ui
      then (case master ui of
              None \<Rightarrow> Inl null_dereference
            | Some m \<Rightarrow> Inr (ui\<lparr>master := Some (ChangePeriod new_period new_period m)\<rparr>))
      else Inr ui)"

subsection \<open>\<^verbatim>\<open>Master::InitializeWindows\<close> (master.cpp, lines 534 to 583)\<close>

text \<open>\<^verbatim>\<open>std::vector::resize\<close> and the \<^verbatim>\<open>insert\<close> of a map, which keeps an existing entry.\<close>

definition vector_resize :: "nat \<Rightarrow> 'a \<Rightarrow> 'a list \<Rightarrow> 'a list" where
  "vector_resize n x xs = take n xs @ replicate (n - length xs) x"

definition map_insert :: "('k \<rightharpoonup> 'v) \<Rightarrow> 'k \<Rightarrow> 'v \<Rightarrow> ('k \<rightharpoonup> 'v)" where
  "map_insert f k v = (case f k of None \<Rightarrow> f(k \<mapsto> v) | Some old \<Rightarrow> f)"

text \<open>The body of the loop over the sorted global identifiers (lines 553 to 563).\<close>

definition register_agent :: "AgentGlobalId \<Rightarrow> Master \<Rightarrow> error + Master" where
  "register_agent global_id m =
     then_do (GlobalToLocalType m global_id) (\<lambda>type.
     then_do (GlobalToLocalId m global_id) (\<lambda>ident.
     then_do (vector_at (agent_ids_by_types m) type) (\<lambda>ids.
     then_do (vector_at (maximal_ids m) type) (\<lambda>bound.
     then_do (map_at (masters m) global_id) (\<lambda>master_id.
     then_do (vector_at (PublicWindowsDescription m) (word_of_int master_id)) (\<lambda>w.
     then_do (map_at (public_attributes_struct_sizes m) type) (\<lambda>public_size.
     then_do (map_at (critical_attributes_struct_sizes m) type) (\<lambda>critical_size.
       Inr (m\<lparr>agent_ids_by_types := (agent_ids_by_types m)[unat type := insert ident ids],
              maximal_ids := (maximal_ids m)[unat type := max bound (ident + 1)],
              public_agents_offsets := map_insert (public_agents_offsets m) global_id (used w),
              critical_agents_offsets :=
                map_insert (critical_agents_offsets m) global_id (size_w (CriticalWindowDescription m)),
              PublicWindowsDescription :=
                (PublicWindowsDescription m)[unat (word_of_int master_id :: u64) := w\<lparr>used := used w + public_size\<rparr>],
              CriticalWindowDescription :=
                (CriticalWindowDescription m)
                  \<lparr>size_w := size_w (CriticalWindowDescription m) + critical_size\<rparr>\<rparr>)))))))))"

fun register_agents :: "AgentGlobalId list \<Rightarrow> Master \<Rightarrow> error + Master" where
  "register_agents [] m = Inr m"
| "register_agents (g # gs) m = then_do (register_agent g m) (register_agents gs)"

text \<open>
  \<^verbatim>\<open>InitializeWindows\<close> up to the allocation of the windows. The loop
  \<^verbatim>\<open>for(auto x: PublicWindowsDescription)\<close> of lines 542 to 545 writes to copies of the
  elements and changes nothing. \<^verbatim>\<open>resize\<close> with a negative \<^verbatim>\<open>nb_masters_\<close>
  (converted to \<^verbatim>\<open>size_t\<close>) throws. The critical window is a fresh block of
  \<open>2 \<times> size\<close> bytes; \<^verbatim>\<open>FillWindows\<close>, which then writes the attributes of the
  agents into the windows and reads the offsets without changing them, is not modelled.
\<close>

definition InitializeWindows :: "AgentGlobalId list \<Rightarrow> Master \<Rightarrow> error + Master" where
  "InitializeWindows agent_ids m =
     (let sorted_ids = sort agent_ids
      in if nb_masters m < 0 then Inl length_error
         else
           (let m1 = m\<lparr>PublicWindowsDescription :=
                         vector_resize (nat (nb_masters m)) \<lparr>size_w = 0, used = 0\<rparr> (PublicWindowsDescription m),
                       CriticalWindowDescription := (CriticalWindowDescription m)\<lparr>size_w := 0\<rparr>,
                       maximal_ids := replicate (unat (nb_types m)) 0,
                       agent_ids_by_types := vector_resize (unat (nb_types m)) {} (agent_ids_by_types m)\<rparr>
            in then_do (register_agents sorted_ids m1) (\<lambda>m2.
                 let max_public_used = fold (\<lambda>x acc. max acc (used x)) (PublicWindowsDescription m2) 0;
                     critical_bytes = unat (2 * size_w (CriticalWindowDescription m2))
                 in Inr (m2\<lparr>PublicWindowsDescription :=
                              map (\<lambda>x. x\<lparr>size_w := 2 * max_public_used\<rparr>) (PublicWindowsDescription m2),
                            begin_critical_window := Addr (next_block (mem m2)) 0,
                            mem := (mem m2)\<lparr>blocks := (blocks (mem m2))
                                               (next_block (mem m2) \<mapsto> replicate critical_bytes 0),
                                            next_block := Suc (next_block (mem m2))\<rparr>\<rparr>))))"


subsection \<open>Notions used in the statements\<close>

fun is_MPI_Get :: "event \<Rightarrow> bool" where
  "is_MPI_Get (MPI_Get g a r d t) = True"
| "is_MPI_Get e = False"

text \<open>The phases entered, in the order of their entry.\<close>

fun phases_of :: "event list \<Rightarrow> phase list" where
  "phases_of [] = []"
| "phases_of (Enter ph # es) = ph # phases_of es"
| "phases_of (e # es) = phases_of es"

text \<open>The pairs (agent, attribute) of the one-sided reads, in the order of the reads.\<close>

fun fetches :: "event list \<Rightarrow> (AgentGlobalId \<times> Attribute) list" where
  "fetches [] = []"
| "fetches (MPI_Get g a r d t # es) = (g, a) # fetches es"
| "fetches (e # es) = fetches es"

text \<open>
  \<open>only_gets m m'\<close>: from \<open>m\<close> to \<open>m'\<close> the master made no observable call but
  one-sided reads, and kept its time step, its period and its identifier.
\<close>

definition only_gets :: "Master \<Rightarrow> Master \<Rightarrow> bool" where
  "only_gets m m' \<longleftrightarrow>
     step m' = step m \<and> period m' = period m \<and> id_m m' = id_m m \<and>
     (\<exists>gets. trace m' = trace m @ gets \<and> list_all is_MPI_Get gets)"

text \<open>
  \<open>fetched_once tr0 m\<close>: since the trace was \<open>tr0\<close>, the one-sided reads of \<open>m\<close> were
  for pairwise different (agent, attribute) pairs, which are the keys of the cache.
\<close>

definition fetched_once :: "event list \<Rightarrow> Master \<Rightarrow> bool" where
  "fetched_once tr0 m \<longleftrightarrow>
     (\<exists>gets. trace m = tr0 @ gets \<and> list_all is_MPI_Get gets \<and> distinct (fetches gets)
        \<and> set (fetches gets) = dom (received_public_attributes m))"

text \<open>
  What the loop of \<^verbatim>\<open>InitializeWindows\<close> reads (the number of agent types, the
  assignment of the agents to the masters, the sizes of the public and critical records
  of each type) and what it reads and writes (the two offset maps, the window
  descriptions, the lengths of the two vectors indexed by agent type); and the two offset
  maps of a master.
\<close>

definition layout_inputs :: "Master \<Rightarrow>
    AgentType \<times> (AgentGlobalId \<rightharpoonup> MasterId) \<times> (AgentType \<rightharpoonup> size_t) \<times> (AgentType \<rightharpoonup> size_t)
    \<times> (AgentGlobalId \<rightharpoonup> size_t) \<times> (AgentGlobalId \<rightharpoonup> size_t) \<times> WindowDescription list \<times> size_t
    \<times> nat \<times> nat" where
  "layout_inputs m =
     (nb_types m, masters m, public_attributes_struct_sizes m, critical_attributes_struct_sizes m,
      public_agents_offsets m, critical_agents_offsets m, PublicWindowsDescription m,
      size_w (CriticalWindowDescription m),
      length (agent_ids_by_types m), length (maximal_ids m))"

definition offset_maps :: "Master \<Rightarrow> (AgentGlobalId \<rightharpoonup> size_t) \<times> (AgentGlobalId \<rightharpoonup> size_t)" where
  "offset_maps m = (public_agents_offsets m, critical_agents_offsets m)"

text \<open>
  The arena as the methods of \<^verbatim>\<open>custom_heap\<close> leave it: without a block it has no
  capacity, and with one, \<^verbatim>\<open>data_\<close> is the start of a live block of \<^verbatim>\<open>capacity_\<close>
  bytes.
\<close>

definition arena_allocated :: "custom_heap \<Rightarrow> memory \<Rightarrow> bool" where
  "arena_allocated h mm \<longleftrightarrow>
     (case data h of
        nullptr \<Rightarrow> capacity h = 0
      | Addr b off \<Rightarrow> off = 0 \<and> map_option length (blocks mm b) = Some (unat (capacity h)))"

text \<open>The number of times the master has run the behaviours of its agents.\<close>

definition behaviours_run :: "Master \<Rightarrow> nat" where
  "behaviours_run m = count_list (trace m) (Enter RunBehaviors_phase)"

text \<open>
  An environment in which the behaviours call nothing and the peers send nothing, and a
  master that can start a time step: no interaction is waiting for its distribution and
  the outbox has its buckets.
\<close>

definition quiet :: environment where
  "quiet = \<lparr>Behavior = (\<lambda>m. []), schedule = (\<lambda>m. []), incoming = (\<lambda>m. [])\<rparr>"

definition ready_to_run :: "Master \<Rightarrow> bool" where
  "ready_to_run m \<longleftrightarrow>
     received_interactions m = [] \<and>
     unat (word_of_int (nb_masters m) * nb_interactions m :: u64) \<le> length (interactions_to_send m)"

text \<open>
  \<open>agents_have_masters m\<close>: there is one set of local identifiers per agent type, and
  every agent in these sets is assigned to a master that has a public window
  description.
\<close>

definition agents_have_masters :: "Master \<Rightarrow> bool" where
  "agents_have_masters m \<longleftrightarrow>
     length (agent_ids_by_types m) = unat (nb_types m) \<and>
     (\<forall>t i. t < nb_types m \<and> i \<in> agent_ids_by_types m ! unat t
        \<longrightarrow> (\<exists>r. masters m (LocalToGlobalId m i t) = Some r
                 \<and> unat (word_of_int r :: u64) < length (PublicWindowsDescription m)))"

subsection \<open>A small simulation\<close>

text \<open>
  Two masters, two agent types (0, named Sheep, with the public attribute 0 of two bytes
  and the critical attribute 1 of one byte; 1, named Wolf, with the public attribute 0 of
  four bytes) and one interaction type. Sheep 0 (global identifier 0) is held by master 0,
  wolf 0 (global identifier 1) and sheep 1 (global identifier 2) by master 1.
  \<open>example_master r\<close> is master \<open>r\<close> after its initialisation. In each time step
  the behaviours of a first handler read the public attribute of wolf 0 and the critical
  attribute of sheep 1, and those of a second handler read the public attribute of wolf 0
  and send one interaction to wolf 0; the second thread makes its first step when the
  first thread has made its calls. The peers deliver one interaction for sheep 0.
\<close>

definition example_catalog :: "Master \<Rightarrow> Master" where
  "example_catalog m = m
     \<lparr>attributes_sizes := [(0, 0) \<mapsto> 2, (0, 1) \<mapsto> 1, (1, 0) \<mapsto> 4],
      attributes_MPI_types := [(0, 0) \<mapsto> 1, (0, 1) \<mapsto> 2, (1, 0) \<mapsto> 3],
      public_attributes_offsets := [(0, 0) \<mapsto> 0, (1, 0) \<mapsto> 0],
      public_attributes_struct_sizes := [0 \<mapsto> 2, 1 \<mapsto> 4],
      critical_attributes := {(0, 1)},
      critical_attributes_offsets := [(0, 1) \<mapsto> 0],
      critical_attributes_struct_sizes := [0 \<mapsto> 1, 1 \<mapsto> 0],
      agent_type_to_string := [0 \<mapsto> ''Sheep'', 1 \<mapsto> ''Wolf'']\<rparr>"

definition example_master :: "MasterId \<Rightarrow> Master" where
  "example_master r =
     (example_catalog (Master_init r 2 2 1 (\<lambda>n. True) (\<lambda>old new. Realloc_moves)))
     \<lparr>masters := [0 \<mapsto> 0, 1 \<mapsto> 1, 2 \<mapsto> 1],
      agent_ids_by_types := [{0, 1}, {0}],
      maximal_ids := [2, 1],
      public_agents_offsets := [0 \<mapsto> 0, 1 \<mapsto> 0, 2 \<mapsto> 4],
      critical_agents_offsets := [0 \<mapsto> 0, 1 \<mapsto> 1, 2 \<mapsto> 1],
      agents := (if r = 0
                 then [0 \<mapsto> \<lparr>agent_id = 0, agent_type = 0, attributes = [0 \<mapsto> [1, 2], 1 \<mapsto> [3]], received = []\<rparr>]
                 else [1 \<mapsto> \<lparr>agent_id = 0, agent_type = 1, attributes = [0 \<mapsto> [4, 5, 6, 7]], received = []\<rparr>,
                       2 \<mapsto> \<lparr>agent_id = 1, agent_type = 0, attributes = [0 \<mapsto> [8, 9], 1 \<mapsto> [10]], received = []\<rparr>]),
      public_windows := (\<lambda>r. if r = 0 then [1, 2, 0, 0] else if r = 1 then [4, 5, 6, 7, 8, 9, 0, 0, 0, 0, 0, 0] else []),
      begin_critical_window := Addr 0 0,
      mem := \<lparr>blocks = [0 \<mapsto> [3, 10, 0, 0]], next_block = 1,
              malloc_ok = (\<lambda>n. True), realloc_how = (\<lambda>old new. Realloc_moves)\<rparr>\<rparr>"

definition example_environment :: environment where
  "example_environment =
     \<lparr>Behavior = (\<lambda>m. [[AskAttribute 0 0 1, AskAttribute 1 1 0],
                       [AskAttribute 0 0 1,
                        SendMessage \<lparr>type_i = 0, sender_id = 0, sender_type = 0,
                                     recipient_id = 0, recipient_type = 1, structure = []\<rparr>]]),
      schedule = (\<lambda>m. [0, 0, 0, 0, 0, 1]),
      incoming = (\<lambda>m. [\<lparr>type_i = 0, sender_id = 0, sender_type = 1,
                         recipient_id = 0, recipient_type = 0, structure = []\<rparr>])\<rparr>"

text \<open>
  Two handlers whose behaviours read the same public attribute (attribute 0 of wolf 0, an
  agent of master 1) in the same time step, and a scheduler under which each of the two
  threads makes its lookup before the other has recorded a location; on a process whose
  \<^verbatim>\<open>realloc\<close> resizes the block where it is.
\<close>

definition racing_environment :: environment where
  "racing_environment =
     \<lparr>Behavior = (\<lambda>m. [[AskAttribute 0 0 1], [AskAttribute 0 0 1]]),
      schedule = (\<lambda>m. [0, 1]),
      incoming = (\<lambda>m. [])\<rparr>"

definition racing_master :: Master where
  "racing_master =
     (example_master 0)\<lparr>mem := (mem (example_master 0))\<lparr>realloc_how := (\<lambda>old new. Realloc_in_place)\<rparr>\<rparr>"

definition example_ui :: user_interface where
  "example_ui = \<lparr>control = Control_IDLE, run = False, is_alive = True, master = None, ui_cerr = []\<rparr>"

text \<open>
  Master \<open>r\<close> of the small simulation when its constructor calls
  \<^verbatim>\<open>InitializeWindows\<close>: the agents are assigned and received, the offset maps are
  empty. The two processes differ in their agents and in their C library.
\<close>

definition example_before_windows :: "MasterId \<Rightarrow> Master" where
  "example_before_windows r =
     (example_catalog (Master_init r 2 2 1 (\<lambda>n. True) (\<lambda>old new. if r = 0 then Realloc_moves else Realloc_in_place)))
     \<lparr>masters := [0 \<mapsto> 0, 1 \<mapsto> 1, 2 \<mapsto> 1],
      agents := agents (example_master r)\<rparr>"

section \<open>Properties\<close>

subsection \<open>Agent identifiers\<close>

lemma unat_LocalToGlobalId:
  assumes "unat i * unat (nb_types m) + unat t < 2 ^ 64"
  shows "unat (LocalToGlobalId m i t) = unat i * unat (nb_types m) + unat t"
proof -
  have prod: "unat (nb_types m) * unat i < 2 ^ 64"
    using assms by (simp add: mult.commute)
  have "unat (nb_types m * i) = unat (nb_types m) * unat i"
    using prod by (simp add: unat_word_ariths)
  then show ?thesis
    using assms by (simp add: LocalToGlobalId_def unat_word_ariths mult.commute)
qed

lemma decode_LocalToGlobalId:
  assumes "t < nb_types m" and "unat i * unat (nb_types m) + unat t < 2 ^ 64"
  shows "LocalToGlobalId m i t div nb_types m = i"
    and "LocalToGlobalId m i t mod nb_types m = t"
proof -
  have lt: "unat t < unat (nb_types m)"
    using assms(1) by (simp add: word_less_nat_alt)
  have g: "unat (LocalToGlobalId m i t) = unat i * unat (nb_types m) + unat t"
    by (rule unat_LocalToGlobalId [OF assms(2)])
  have "unat (LocalToGlobalId m i t div nb_types m) = unat i"
    using lt by (simp add: unat_div g)
  then show "LocalToGlobalId m i t div nb_types m = i"
    by (simp add: word_unat_eq_iff)
  have "unat (LocalToGlobalId m i t mod nb_types m) = unat t"
    using lt by (simp add: unat_mod g)
  then show "LocalToGlobalId m i t mod nb_types m = t"
    by (simp add: word_unat_eq_iff)
qed

text \<open>
  C9, as the code has it. \<^verbatim>\<open>LocalToGlobalId\<close> computes \<open>i \<times> T + t\<close> in 64-bit
  unsigned arithmetic. For a type \<open>t < T\<close> and a local identifier \<open>i\<close> with
  \<open>i \<times> T + t < 2\<^sup>6\<^sup>4\<close> the result is that number, \<^verbatim>\<open>GlobalToLocalId\<close> gives back
  \<open>i\<close> and \<^verbatim>\<open>GlobalToLocalType\<close> gives back \<open>t\<close>; hence two such pairs with the same
  global identifier are equal.
\<close>

theorem LocalToGlobalId_inverse:
  assumes "t < nb_types m" and "unat i * unat (nb_types m) + unat t < 2 ^ 64"
  shows "unat (LocalToGlobalId m i t) = unat i * unat (nb_types m) + unat t
       \<and> GlobalToLocalId m (LocalToGlobalId m i t) = Inr i
       \<and> GlobalToLocalType m (LocalToGlobalId m i t) = Inr t
       \<and> (\<forall>i' t'. t' < nb_types m \<and> unat i' * unat (nb_types m) + unat t' < 2 ^ 64
              \<and> LocalToGlobalId m i' t' = LocalToGlobalId m i t \<longrightarrow> i' = i \<and> t' = t)"
proof -
  have T0: "nb_types m \<noteq> 0"
    using assms(1) by auto
  have inj: "\<forall>i' t'. t' < nb_types m \<and> unat i' * unat (nb_types m) + unat t' < 2 ^ 64
              \<and> LocalToGlobalId m i' t' = LocalToGlobalId m i t \<longrightarrow> i' = i \<and> t' = t"
  proof (intro allI impI)
    fix i' t'
    assume h: "t' < nb_types m \<and> unat i' * unat (nb_types m) + unat t' < 2 ^ 64
              \<and> LocalToGlobalId m i' t' = LocalToGlobalId m i t"
    from h have a: "t' < nb_types m" and b: "unat i' * unat (nb_types m) + unat t' < 2 ^ 64"
      and c: "LocalToGlobalId m i' t' = LocalToGlobalId m i t"
      by blast+
    show "i' = i \<and> t' = t"
      using decode_LocalToGlobalId [OF a b] decode_LocalToGlobalId [OF assms] c by simp
  qed
  have dec: "GlobalToLocalId m (LocalToGlobalId m i t) = Inr i"
    "GlobalToLocalType m (LocalToGlobalId m i t) = Inr t"
    using decode_LocalToGlobalId [OF assms] T0
    by (simp_all add: GlobalToLocalId_def GlobalToLocalType_def)
  show ?thesis
    using unat_LocalToGlobalId [OF assms(2)] dec inj by blast
qed

theorem LocalToGlobalId_inverse_witness:
  "GlobalToLocalId (example_master 0) (LocalToGlobalId (example_master 0) 5 1) = Inr 5
 \<and> GlobalToLocalType (example_master 0) (LocalToGlobalId (example_master 0) 5 1) = Inr 1
 \<and> unat (LocalToGlobalId (example_master 0) 5 1) = 11"
  using LocalToGlobalId_inverse [of 1 "example_master 0" 5]
  by (simp add: example_master_def example_catalog_def Master_init_def)

text \<open>
  C9, as the claim has it (every local identifier): the small simulation has \<open>T = 2\<close>
  agent types; the local identifier \<open>2\<^sup>6\<^sup>3\<close> of type 0 gets the global identifier 0,
  which is also that of the local identifier 0 of type 0, and decodes to the local
  identifier 0.
\<close>

theorem LocalToGlobalId_wraps_counterexample:
  "nb_types (example_master 0) = 2
 \<and> LocalToGlobalId (example_master 0) (2 ^ 63) 0 = LocalToGlobalId (example_master 0) 0 0
 \<and> GlobalToLocalId (example_master 0) (LocalToGlobalId (example_master 0) (2 ^ 63) 0) = Inr 0
 \<and> (2 ^ 63 :: AgentId) \<noteq> 0"
  by (simp add: example_master_def example_catalog_def Master_init_def
        LocalToGlobalId_def GlobalToLocalId_def)

subsection \<open>What the phases of a time step leave unchanged\<close>

lemma only_gets_refl: "only_gets m m"
  by (simp add: only_gets_def)

lemma only_gets_trans: "only_gets a b \<Longrightarrow> only_gets b c \<Longrightarrow> only_gets a c"
  by (auto simp: only_gets_def)

lemma then_do_Inr: "then_do r f = Inr y \<longleftrightarrow> (\<exists>x. r = Inr x \<and> f x = Inr y)"
  by (cases r) (simp_all add: then_do_def)

lemma GetPublicAttribute_only_gets:
  "GetPublicAttribute attr g m = Inr (p, m') \<Longrightarrow> only_gets m m'"
  unfolding GetPublicAttribute_def
  by (auto simp: then_do_Inr only_gets_def Let_def split: option.splits prod.splits)

lemma GetAttribute_only_gets:
  "GetAttribute attr i t m = Inr (p, m') \<Longrightarrow> only_gets m m'"
  unfolding GetAttribute_def
  by (auto simp: then_do_Inr Let_def only_gets_refl dest: GetPublicAttribute_only_gets split: if_splits)

lemma PushInteraction_only_gets:
  "PushInteraction x m = Inr m' \<Longrightarrow> only_gets m m'"
  unfolding PushInteraction_def
  by (auto simp: then_do_Inr Let_def only_gets_def split: if_splits)

lemma run_action_only_gets: "run_action a m = Inr m' \<Longrightarrow> only_gets m m'"
  by (cases a) (auto simp: then_do_Inr dest: GetAttribute_only_gets PushInteraction_only_gets)

lemma run_actions_only_gets: "run_actions as m = Inr m' \<Longrightarrow> only_gets m m'"
proof (induction as arbitrary: m)
  case Nil
  then show ?case by (simp add: only_gets_refl)
next
  case (Cons a as)
  then show ?case
    by (auto simp: then_do_Inr dest: run_action_only_gets intro: only_gets_trans)
qed



lemma SendReceiveInteractions_Inr:
  "SendReceiveInteractions env m = Inr m' \<Longrightarrow>
     step m' = step m \<and> period m' = period m \<and> id_m m' = id_m m \<and>
     trace m' = trace m @ [Enter SendReceiveInteractions_phase]"
  by (auto simp: SendReceiveInteractions_def Let_def enter_def split: if_splits)

lemma distribute_Inr:
  "distribute xs m = Inr m' \<Longrightarrow>
     step m' = step m \<and> period m' = period m \<and> id_m m' = id_m m \<and> trace m' = trace m"
  by (induction xs arbitrary: m) (auto simp: then_do_Inr Let_def)

lemma DistributeReceivedInteractions_Inr:
  "DistributeReceivedInteractions m = Inr m' \<Longrightarrow>
     step m' = step m \<and> period m' = period m \<and> id_m m' = id_m m \<and>
     trace m' = trace m @ [Enter DistributeReceivedInteractions_phase]"
  by (auto simp: DistributeReceivedInteractions_def then_do_Inr enter_def dest!: distribute_Inr)

lemma GetPublicAttribute_allocate_only_gets:
  "GetPublicAttribute_allocate attr g t m = Inr (pr, m') \<Longrightarrow> only_gets m m'"
  unfolding GetPublicAttribute_allocate_def
  by (auto simp: then_do_Inr only_gets_def split: prod.splits)

lemma thread_step_only_gets:
  "thread_step t m = Inr (t', m') \<Longrightarrow> only_gets m m'"
proof (induction t m rule: thread_step.induct)
  case (1 m)
  then show ?case by (simp add: only_gets_refl)
next
  case (2 attr ident type rest m)
  then show ?case by (auto simp: then_do_Inr only_gets_refl)
next
  case (3 interaction rest m)
  then show ?case by (auto simp: then_do_Inr dest: PushInteraction_only_gets)
next
  case (4 attr g agent_type' rest m)
  then show ?case by (auto simp: then_do_Inr dest: GetPublicAttribute_allocate_only_gets)
next
  case (5 attr g r ty d sz location rest m)
  then show ?case by (auto simp: GetPublicAttribute_set_def only_gets_def)
next
  case (6 attr g r ty d sz location rest m)
  then show ?case by (auto simp: GetPublicAttribute_get_def only_gets_def)
qed

lemma run_schedule_only_gets:
  "run_schedule sched ts m = Inr (ts', m') \<Longrightarrow> only_gets m m'"
proof (induction sched arbitrary: ts m)
  case Nil
  then show ?case by (simp add: only_gets_refl)
next
  case (Cons i sched)
  show ?case
  proof (cases "i < length ts")
    case False
    then show ?thesis using Cons by simp
  next
    case True
    with Cons.prems obtain t1 m1 where
      a: "thread_step (ts ! i) m = Inr (t1, m1)" and
      b: "run_schedule sched (ts[i := t1]) m1 = Inr (ts', m')"
      by (auto split: sum.splits)
    from thread_step_only_gets [OF a] Cons.IH [OF b] show ?thesis
      by (rule only_gets_trans)
  qed
qed

lemma join_step:
  "join t m = (if t = Thread Idle_thread [] then Inr m
               else case thread_step t m of Inl e \<Rightarrow> Inl e | Inr (t', m') \<Rightarrow> join t' m')"
  by (cases "(t, m)" rule: join.cases) simp_all

lemma join_only_gets:
  "join t m = Inr m' \<Longrightarrow> only_gets m m'"
proof (induction t m rule: join.induct)
  case (1 m)
  then show ?case by (simp add: only_gets_refl)
next
  case (2 a rest m)
  from "2.prems" obtain t1 m1 where
    a: "thread_step (Thread Idle_thread (a # rest)) m = Inr (t1, m1)" and b: "join t1 m1 = Inr m'"
    by (auto split: sum.splits)
  from thread_step_only_gets [OF a] "2.IH" [OF a refl b] show ?case
    by (rule only_gets_trans)
next
  case (3 attr g agent_type' rest m)
  from "3.prems" obtain t1 m1 where
    a: "thread_step (Thread (Missed attr g agent_type') rest) m = Inr (t1, m1)" and b: "join t1 m1 = Inr m'"
    by (auto split: sum.splits)
  from thread_step_only_gets [OF a] "3.IH" [OF a refl b] show ?case
    by (rule only_gets_trans)
next
  case (4 attr g r ty d sz location rest m)
  from "4.prems" obtain t1 m1 where
    a: "thread_step (Thread (Allocated attr g r ty d sz location) rest) m = Inr (t1, m1)"
    and b: "join t1 m1 = Inr m'"
    by (auto split: sum.splits)
  from thread_step_only_gets [OF a] "4.IH" [OF a refl b] show ?case
    by (rule only_gets_trans)
next
  case (5 attr g r ty d sz location rest m)
  from "5.prems" obtain t1 m1 where
    a: "thread_step (Thread (Inserted attr g r ty d sz location) rest) m = Inr (t1, m1)"
    and b: "join t1 m1 = Inr m'"
    by (auto split: sum.splits)
  from thread_step_only_gets [OF a] "5.IH" [OF a refl b] show ?case
    by (rule only_gets_trans)
qed

lemma join_all_only_gets:
  "join_all ts m = Inr m' \<Longrightarrow> only_gets m m'"
proof (induction ts arbitrary: m)
  case Nil
  then show ?case by (simp add: only_gets_refl)
next
  case (Cons t ts)
  then show ?case
    by (auto simp: then_do_Inr dest: join_only_gets intro: only_gets_trans)
qed

lemma RunBehaviors_Inr:
  assumes "RunBehaviors env m = Inr m'"
  shows "step m' = step m \<and> period m' = period m \<and> id_m m' = id_m m \<and>
     (\<exists>gets. trace m' = trace m @ Enter RunBehaviors_phase # gets \<and> list_all is_MPI_Get gets)"
proof -
  define m0 where "m0 = enter RunBehaviors_phase
                (m\<lparr>received_public_attributes := Map.empty,
                    stored_public_attributes := clear_heap (stored_public_attributes m)\<rparr>)"
  from assms obtain ts m1 m2 where
    r: "run_schedule (schedule env m0) (map (Thread Idle_thread) (Behavior env m0)) m0 = Inr (ts, m1)"
    and j: "join_all ts m1 = Inr m2"
    and m': "m' = m2\<lparr>agents := (\<lambda>g. map_option (\<lambda>a. a\<lparr>received := []\<rparr>) (agents m2 g))\<rparr>"
    by (auto simp: RunBehaviors_def Let_def then_do_Inr m0_def)
  have "only_gets m0 m2"
    using run_schedule_only_gets [OF r] join_all_only_gets [OF j] by (rule only_gets_trans)
  then show ?thesis
    by (auto simp: only_gets_def m' m0_def enter_def)
qed

lemma RunTimeStep_Inr:
  assumes "RunTimeStep env m = Inr m'"
  shows "step m' = step m + 1 \<and> period m' = period m \<and> id_m m' = id_m m \<and>
     (\<exists>gets. trace m' = trace m @
        [Enter UpdateAllPublicAttributes_phase, MPI_Barrier, MPI_Barrier,
         Enter SendReceiveInteractions_phase, MPI_Barrier,
         Enter DistributeReceivedInteractions_phase, MPI_Barrier,
         Enter RunBehaviors_phase] @ gets @ [MPI_Barrier] \<and> list_all is_MPI_Get gets)"
proof -
  define m3 where "m3 = Synchronize (Synchronize (UpdateAllPublicAttributes (m\<lparr>step := step m + 1\<rparr>)))"
  from assms obtain m4 m5 m6 where
    a: "SendReceiveInteractions env m3 = Inr m4" and
    b: "DistributeReceivedInteractions (Synchronize m4) = Inr m5" and
    c: "RunBehaviors env (Synchronize m5) = Inr m6" and
    d: "m' = Synchronize m6"
    by (auto simp: RunTimeStep_def Let_def then_do_Inr m3_def)
  have m3: "step m3 = step m + 1" "period m3 = period m" "id_m m3 = id_m m"
    "trace m3 = trace m @ [Enter UpdateAllPublicAttributes_phase, MPI_Barrier, MPI_Barrier]"
    by (simp_all add: m3_def Synchronize_def UpdateAllPublicAttributes_def enter_def)
  note A = SendReceiveInteractions_Inr [OF a]
  note B = DistributeReceivedInteractions_Inr [OF b]
  note C = RunBehaviors_Inr [OF c]
  from C obtain gets where g: "trace m6 = trace (Synchronize m5) @ Enter RunBehaviors_phase # gets"
    "list_all is_MPI_Get gets" by blast
  have "trace m' = trace m @
        [Enter UpdateAllPublicAttributes_phase, MPI_Barrier, MPI_Barrier,
         Enter SendReceiveInteractions_phase, MPI_Barrier,
         Enter DistributeReceivedInteractions_phase, MPI_Barrier,
         Enter RunBehaviors_phase] @ gets @ [MPI_Barrier]"
    using A B g(1) m3 by (simp add: d Synchronize_def)
  moreover have "step m' = step m + 1" "period m' = period m" "id_m m' = id_m m"
    using A B C m3 by (simp_all add: d Synchronize_def)
  ultimately show ?thesis using g(2) by blast
qed



subsection \<open>Evaluating the small simulation\<close>

lemmas example_defs = example_master_def example_catalog_def example_environment_def Master_init_def

lemmas eval_defs =
  RunTimeStep_def UpdateAllPublicAttributes_def Synchronize_def enter_def
  SendReceiveInteractions_def DistributeReceivedInteractions_def RunBehaviors_def
  GetAttribute_def GetPublicAttribute_def GetCriticalAttribute_def PublicTargetDisp_def
  GetAttribute_lookup_def GetPublicAttribute_allocate_def GetPublicAttribute_set_def
  GetPublicAttribute_get_def
  DoesAgentExist_def IsCritical_def HasReceivedAttribute_def PushInteraction_def
  LocalToGlobalId_def GlobalToLocalType_def GlobalToLocalId_def
  then_do_def map_at_def vector_at_def allocate_def malloc_def clear_heap_def custom_heap_empty_def
  MPI_Get_public_def rma_read_def Let_def


subsection \<open>The order of the phases of a time step\<close>

text \<open>
  C1, as the code has it. Every time step that \<^verbatim>\<open>RunTimeStep\<close> completes makes these
  calls, in this order: the publication of the attributes
  (\<^verbatim>\<open>UpdateAllPublicAttributes\<close>), two barriers, the exchange of the interactions
  between the peers (\<^verbatim>\<open>SendReceiveInteractions\<close>), a barrier, the distribution of the
  interactions just received to the local agents
  (\<^verbatim>\<open>DistributeReceivedInteractions\<close>), a barrier, the behaviours
  (\<^verbatim>\<open>RunBehaviors\<close>, during which the only observable calls are one-sided reads), and
  a last barrier. So a barrier separates every two consecutive phases, and the
  distribution is the third phase, not the first.
\<close>

theorem RunTimeStep_phase_order:
  "RunTimeStep env m = Inr m' \<Longrightarrow>
     \<exists>gets. trace m' = trace m @
        [Enter UpdateAllPublicAttributes_phase, MPI_Barrier, MPI_Barrier,
         Enter SendReceiveInteractions_phase, MPI_Barrier,
         Enter DistributeReceivedInteractions_phase, MPI_Barrier,
         Enter RunBehaviors_phase] @ gets @ [MPI_Barrier] \<and> list_all is_MPI_Get gets"
  using RunTimeStep_Inr by blast

lemma example_step_returns:
  "\<exists>m'. RunTimeStep example_environment (example_master 0) = Inr m'"
  by (simp add: example_defs eval_defs)

theorem RunTimeStep_phase_order_witness:
  "\<exists>m' gets. RunTimeStep example_environment (example_master 0) = Inr m' \<and>
     trace m' = trace (example_master 0) @
        [Enter UpdateAllPublicAttributes_phase, MPI_Barrier, MPI_Barrier,
         Enter SendReceiveInteractions_phase, MPI_Barrier,
         Enter DistributeReceivedInteractions_phase, MPI_Barrier,
         Enter RunBehaviors_phase] @ gets @ [MPI_Barrier] \<and> list_all is_MPI_Get gets"
proof -
  obtain m' where r: "RunTimeStep example_environment (example_master 0) = Inr m'"
    using example_step_returns by blast
  show ?thesis
    using RunTimeStep_phase_order [OF r] r by blast
qed

text \<open>
  C1, as the claim has it (distribute, publish, exchange, behaviours): a time step of the
  small simulation enters the four phases in the order publish, exchange, distribute,
  behaviours.
\<close>

theorem RunTimeStep_distribute_first_counterexample:
  "map_sum id (phases_of \<circ> trace) (RunTimeStep example_environment (example_master 0))
     = Inr [UpdateAllPublicAttributes_phase, SendReceiveInteractions_phase,
            DistributeReceivedInteractions_phase, RunBehaviors_phase]
 \<and> map_sum id (phases_of \<circ> trace) (RunTimeStep example_environment (example_master 0))
     \<noteq> Inr [DistributeReceivedInteractions_phase, UpdateAllPublicAttributes_phase,
             SendReceiveInteractions_phase, RunBehaviors_phase]"
  by (simp add: example_defs eval_defs)

subsection \<open>The number of time steps of a run\<close>

lemma count_list_gets:
  "list_all is_MPI_Get gets \<Longrightarrow> count_list gets (Enter ph) = 0"
  by (induction gets) auto


lemma RunTimeStep_counts:
  assumes "RunTimeStep env m = Inr m'"
  shows "step m' = step m + 1 \<and> period m' = period m \<and> id_m m' = id_m m \<and>
         behaviours_run m' = Suc (behaviours_run m)"
proof -
  from RunTimeStep_Inr [OF assms] obtain gets where
    f: "step m' = step m + 1" "period m' = period m" "id_m m' = id_m m" and
    t: "trace m' = trace m @
        [Enter UpdateAllPublicAttributes_phase, MPI_Barrier, MPI_Barrier,
         Enter SendReceiveInteractions_phase, MPI_Barrier,
         Enter DistributeReceivedInteractions_phase, MPI_Barrier,
         Enter RunBehaviors_phase] @ gets @ [MPI_Barrier]" and
    g: "list_all is_MPI_Get gets" by blast
  have "behaviours_run m' = Suc (behaviours_run m)"
    by (simp add: behaviours_run_def t count_list_gets [OF g])
  with f show ?thesis by simp
qed

lemma run_steps_counts:
  "run_steps n env m = Inr m' \<Longrightarrow>
     step m' = step m + of_nat n \<and> period m' = period m \<and> id_m m' = id_m m \<and>
     behaviours_run m' = behaviours_run m + n"
proof (induction n arbitrary: m)
  case 0
  then show ?case by simp
next
  case (Suc n)
  from Suc.prems obtain m1 where a: "RunTimeStep env m = Inr m1" and b: "run_steps n env m1 = Inr m'"
    by (auto simp: then_do_Inr)
  show ?case
    using RunTimeStep_counts [OF a] Suc.IH [OF b] by simp
qed

lemma RunSimulation_counts:
  assumes "RunSimulation env m = Inr m'"
  shows "step m' = step m + period m \<and> period m' = period m \<and> id_m m' = id_m m \<and>
         behaviours_run m' = behaviours_run m + unat (period m)"
proof -
  define m1 where "m1 = (if id_m m = 0
                then m\<lparr>order := RUN_SIMULATION, trace := trace m @ [MPI_Bcast_order RUN_SIMULATION]\<rparr>
                else m)"
  have m1: "step m1 = step m" "period m1 = period m" "id_m m1 = id_m m"
    "behaviours_run m1 = behaviours_run m"
    by (simp_all add: m1_def behaviours_run_def)
  from assms have "run_steps (unat (period m1)) env m1 = Inr m'"
    by (simp add: RunSimulation_def Let_def m1_def)
  from run_steps_counts [OF this] show ?thesis
    by (simp add: m1)
qed

lemma run_simulations_counts:
  "run_simulations j env m = Inr m' \<Longrightarrow>
     step m' = step m + of_nat j * period m \<and> period m' = period m \<and> id_m m' = id_m m \<and>
     behaviours_run m' = behaviours_run m + j * unat (period m)"
proof (induction j arbitrary: m)
  case 0
  then show ?case by simp
next
  case (Suc j)
  from Suc.prems obtain m1 where a: "RunSimulation env m = Inr m1" and b: "run_simulations j env m1 = Inr m'"
    by (auto simp: then_do_Inr)
  show ?case
    using RunSimulation_counts [OF a] Suc.IH [OF b] by (simp add: algebra_simps)
qed

lemma ChangePeriod_root:
  "id_m m = 0 \<Longrightarrow> period (ChangePeriod r k m) = k \<and> step (ChangePeriod r k m) = step m
     \<and> id_m (ChangePeriod r k m) = 0 \<and> behaviours_run (ChangePeriod r k m) = behaviours_run m"
  by (simp add: ChangePeriod_def Let_def behaviours_run_def)

text \<open>
  C7. On master 0 (the coordinator), after \<^verbatim>\<open>ChangePeriod(k)\<close> the command
  \<^verbatim>\<open>run n\<close> with \<open>n \<ge> 0\<close>, when it returns, has advanced the time step counter by
  \<open>k \<times> n\<close> (in the 64-bit arithmetic of \<^verbatim>\<open>Time\<close>) and has run the behaviours
  exactly \<open>k \<times> n\<close> times: \<^verbatim>\<open>run n\<close> calls \<^verbatim>\<open>RunSimulation\<close> \<open>n\<close> times,
  each call makes \<^verbatim>\<open>period_\<close> = \<open>k\<close> time steps, and each time step adds one to
  \<^verbatim>\<open>step_\<close>.
\<close>

theorem set_period_run_steps:
  assumes "id_m m = 0" and "is_alive ui" and "0 \<le> n"
    and "Parse (Run (Some n)) env (ui\<lparr>master := Some (ChangePeriod r k m)\<rparr>) = Inr ui'"
  shows "\<exists>m'. master ui' = Some m' \<and> step m' = step m + k * word_of_int n
            \<and> behaviours_run m' = behaviours_run m + unat k * nat n"
proof -
  from assms(2,4) obtain m' where
    r: "run_simulations (nat n) env (ChangePeriod r k m) = Inr m'" and
    u: "master ui' = Some m'"
    by (auto simp: then_do_Inr)
  have n: "(of_nat (nat n) :: u64) = word_of_int n"
    using assms(3) by simp
  show ?thesis
    using run_simulations_counts [OF r] ChangePeriod_root [OF assms(1), of r k] u n
    by (simp add: mult.commute)
qed



lemma run_steps_numeral:
  "run_steps (numeral k) env m = then_do (RunTimeStep env m) (run_steps (pred_numeral k) env)"
  by (simp add: numeral_eq_Suc)

lemma run_simulations_numeral:
  "run_simulations (numeral k) env m = then_do (RunSimulation env m) (run_simulations (pred_numeral k) env)"
  by (simp add: numeral_eq_Suc)

lemma example_run_returns:
  "\<exists>ui'. Parse (Run (Some 2)) example_environment
            (example_ui\<lparr>master := Some (ChangePeriod 3 3 (example_master 0))\<rparr>) = Inr ui'"
  by (simp add: example_defs eval_defs example_ui_def ChangePeriod_def RunSimulation_def run_steps_numeral run_simulations_numeral)

theorem set_period_run_steps_witness:
  "\<exists>ui' m'. Parse (Run (Some 2)) example_environment
            (example_ui\<lparr>master := Some (ChangePeriod 3 3 (example_master 0))\<rparr>) = Inr ui'
     \<and> master ui' = Some m' \<and> step m' = 6 \<and> behaviours_run m' = 6"
proof -
  obtain ui' where r: "Parse (Run (Some 2)) example_environment
            (example_ui\<lparr>master := Some (ChangePeriod 3 3 (example_master 0))\<rparr>) = Inr ui'"
    using example_run_returns by blast
  have a: "id_m (example_master 0) = 0" "is_alive example_ui" "(0::int) \<le> 2"
    by (simp_all add: example_defs example_ui_def)
  have b: "step (example_master 0) = 0" "behaviours_run (example_master 0) = 0"
    by (simp_all add: example_defs behaviours_run_def)
  show ?thesis
    using set_period_run_steps [OF a r] r b by auto
qed

text \<open>
  The run does return when nothing throws; with silent behaviours and silent peers it
  returns for every period and every number of calls.
\<close>

lemma RunTimeStep_quiet:
  assumes "ready_to_run m"
  shows "\<exists>m'. RunTimeStep quiet m = Inr m' \<and> ready_to_run m'"
  using assms
  by (simp add: ready_to_run_def quiet_def RunTimeStep_def UpdateAllPublicAttributes_def
        Synchronize_def enter_def SendReceiveInteractions_def DistributeReceivedInteractions_def
        RunBehaviors_def then_do_def Let_def)

lemma run_steps_quiet:
  "ready_to_run m \<Longrightarrow> \<exists>m'. run_steps n quiet m = Inr m' \<and> ready_to_run m'"
proof (induction n arbitrary: m)
  case 0
  then show ?case by simp
next
  case (Suc n)
  from RunTimeStep_quiet [OF Suc.prems] obtain m1 where
    a: "RunTimeStep quiet m = Inr m1" and b: "ready_to_run m1" by blast
  from Suc.IH [OF b] a show ?case by (simp add: then_do_def)
qed

lemma RunSimulation_quiet:
  assumes "ready_to_run m"
  shows "\<exists>m'. RunSimulation quiet m = Inr m' \<and> ready_to_run m'"
proof -
  have "ready_to_run (if id_m m = 0
                then m\<lparr>order := RUN_SIMULATION, trace := trace m @ [MPI_Bcast_order RUN_SIMULATION]\<rparr>
                else m)"
    using assms by (simp add: ready_to_run_def)
  from run_steps_quiet [OF this] show ?thesis
    by (simp add: RunSimulation_def Let_def)
qed

lemma run_simulations_quiet:
  "ready_to_run m \<Longrightarrow> \<exists>m'. run_simulations j quiet m = Inr m' \<and> ready_to_run m'"
proof (induction j arbitrary: m)
  case 0
  then show ?case by simp
next
  case (Suc j)
  from RunSimulation_quiet [OF Suc.prems] obtain m1 where
    a: "RunSimulation quiet m = Inr m1" and b: "ready_to_run m1" by blast
  from Suc.IH [OF b] a show ?case by (simp add: then_do_def)
qed

lemma run_quiet_returns:
  assumes "ready_to_run m" and "is_alive ui"
  shows "\<exists>ui'. Parse (Run (Some n)) quiet (ui\<lparr>master := Some (ChangePeriod r k m)\<rparr>) = Inr ui'"
proof -
  have "ready_to_run (ChangePeriod r k m)"
    using assms(1) by (simp add: ready_to_run_def ChangePeriod_def Let_def)
  from run_simulations_quiet [OF this, of "nat n"] show ?thesis
    using assms(2) by (auto simp: then_do_def)
qed

subsection \<open>Emitting an interaction\<close>

lemma unat_word_of_int_nonneg:
  assumes "0 \<le> r" and "nat r < 2 ^ 64"
  shows "unat (word_of_int r :: u64) = nat r"
proof -
  have "(word_of_int r :: u64) = of_nat (nat r)"
    using assms(1) by simp
  moreover have "unat (of_nat (nat r) :: u64) = nat r"
    using assms(2) by (simp add: unat_of_nat del: of_nat_nat)
  ultimately show ?thesis
    by (simp del: of_nat_nat)
qed

lemma bucket_index:
  assumes "0 \<le> r" and "r < M" and "t < I" and "nat M * unat I < 2 ^ 64"
  shows "unat (word_of_int r * I + t :: u64) = nat r * unat I + unat t"
    and "nat r * unat I + unat t < nat M * unat I"
proof -
  have t: "unat t < unat I"
    using assms(3) by (simp add: word_less_nat_alt)
  have "nat r + 1 \<le> nat M"
    using assms(1,2) by simp
  then have "(nat r + 1) * unat I \<le> nat M * unat I"
    by (rule mult_le_mono1)
  then show lt: "nat r * unat I + unat t < nat M * unat I"
    using t by simp
  have I: "0 < unat I" using t by simp
  have "nat r * 1 \<le> nat r * unat I"
    using I by (intro mult_le_mono2) simp
  then have "nat r \<le> nat r * unat I"
    by (simp only: mult_1_right)
  then have "nat r \<le> nat r * unat I + unat t"
    by (rule trans_le_add1)
  also have "\<dots> < 2 ^ 64"
    using lt assms(4) by (rule less_trans)
  finally have r: "nat r < 2 ^ 64" .
  have "unat (word_of_int r :: u64) = nat r"
    by (rule unat_word_of_int_nonneg [OF assms(1) r])
  moreover have "nat r * unat I + unat t < 2 ^ 64"
    using lt assms(4) by simp
  ultimately show "unat (word_of_int r * I + t :: u64) = nat r * unat I + unat t"
    by (simp add: unat_word_ariths)
qed

text \<open>
  C4, as the code has it. Let \<open>x\<close> be an interaction whose recipient type is a type of
  the simulation and whose interaction type is below the number of interaction types,
  pushed on a master as the constructor and the initialisation leave it: the outbox has
  \<^verbatim>\<open>nb_masters_ \<times> nb_interactions_\<close> buckets, the types of the sender and of the
  recipient have names, and an agent that exists has a master \<open>r\<close> among the masters.
  Then \<^verbatim>\<open>PushInteraction\<close> returns, and
  \<^item> if the recipient exists, its only effect is to append \<open>x\<close> to the bucket of index
    \<open>r \<times> nb_interactions + type\<close>: every other bucket is as before and nothing is
    written to the standard error;
  \<^item> if the recipient does not exist, its only effect is the warning on the standard
    error: no bucket changes, so the interaction is never sent.
\<close>

theorem PushInteraction_bucket_or_warning:
  assumes "unat (recipient_type x) < length (agent_ids_by_types m)"
    and "type_i x < nb_interactions m"
    and "agent_type_to_string m (sender_type x) = Some sender_name"
    and "agent_type_to_string m (recipient_type x) = Some recipient_name"
    and "length (interactions_to_send m) = nat (nb_masters m) * unat (nb_interactions m)"
    and "nat (nb_masters m) * unat (nb_interactions m) < 2 ^ 64"
    and "recipient_id x \<in> agent_ids_by_types m ! unat (recipient_type x) \<Longrightarrow>
           masters m (LocalToGlobalId m (recipient_id x) (recipient_type x)) = Some r
           \<and> 0 \<le> r \<and> r < nb_masters m"
  shows "PushInteraction x m =
     Inr (if recipient_id x \<in> agent_ids_by_types m ! unat (recipient_type x)
          then m\<lparr>interactions_to_send := (interactions_to_send m)
                  [nat r * unat (nb_interactions m) + unat (type_i x) :=
                     interactions_to_send m ! (nat r * unat (nb_interactions m) + unat (type_i x)) @ [x]]\<rparr>
          else m\<lparr>cerr := cerr m @
                  [Warning_recipient_does_not_exist (sender_id x) sender_name
                     (recipient_id x) recipient_name]\<rparr>)"
proof (cases "recipient_id x \<in> agent_ids_by_types m ! unat (recipient_type x)")
  case True
  from assms(7) [OF True] have
    r: "masters m (LocalToGlobalId m (recipient_id x) (recipient_type x)) = Some r"
    and r0: "0 \<le> r" and rM: "r < nb_masters m" by simp_all
  note i = bucket_index [OF r0 rM assms(2) assms(6)]
  show ?thesis
    using True assms(1) r i assms(5)
    by (simp add: PushInteraction_def DoesAgentExist_def vector_at_def map_at_def then_do_def Let_def)
next
  case False
  then show ?thesis
    using assms(1,3,4)
    by (simp add: PushInteraction_def DoesAgentExist_def vector_at_def map_at_def then_do_def Let_def)
qed



lemma replicate_numeral: "replicate (numeral k) x = x # replicate (pred_numeral k) x"
  by (simp add: numeral_eq_Suc)

theorem PushInteraction_bucket_or_warning_witness:
  "PushInteraction \<lparr>type_i = 0, sender_id = 0, sender_type = 0,
                      recipient_id = 0, recipient_type = 1, structure = [7]\<rparr> (example_master 0)
     = Inr ((example_master 0)\<lparr>interactions_to_send :=
              [[], [\<lparr>type_i = 0, sender_id = 0, sender_type = 0,
                     recipient_id = 0, recipient_type = 1, structure = [7]\<rparr>]]\<rparr>)
 \<and> PushInteraction \<lparr>type_i = 0, sender_id = 0, sender_type = 0,
                      recipient_id = 5, recipient_type = 1, structure = [7]\<rparr> (example_master 0)
     = Inr ((example_master 0)\<lparr>cerr := [Warning_recipient_does_not_exist 0 ''Sheep'' 5 ''Wolf'']\<rparr>)"
  using PushInteraction_bucket_or_warning
          [of "\<lparr>type_i = 0, sender_id = 0, sender_type = 0,
                recipient_id = 0, recipient_type = 1, structure = [7]\<rparr>" "example_master 0"
              "''Sheep''" "''Wolf''" 1]
        PushInteraction_bucket_or_warning
          [of "\<lparr>type_i = 0, sender_id = 0, sender_type = 0,
                recipient_id = 5, recipient_type = 1, structure = [7]\<rparr>" "example_master 0"
              "''Sheep''" "''Wolf''" 1]
  by (simp add: example_defs LocalToGlobalId_def replicate_numeral)

text \<open>
  C4, as the claim has it (every interaction): the small simulation has the agent types 0
  and 1 and two buckets. An interaction for an agent of type 2, which does not exist,
  gets no warning: \<^verbatim>\<open>agent_ids_by_types_.at(2)\<close> throws \<^verbatim>\<open>std::out_of_range\<close>. An
  interaction of type 1 for wolf 0, which exists and is held by master 1, is appended to
  no bucket: \<^verbatim>\<open>interactions_to_send_.at(2)\<close> throws.
\<close>

theorem PushInteraction_unknown_type_counterexample:
  "length (agent_ids_by_types (example_master 0)) = 2
 \<and> PushInteraction \<lparr>type_i = 0, sender_id = 0, sender_type = 0,
                      recipient_id = 0, recipient_type = 2, structure = []\<rparr> (example_master 0)
     = Inl out_of_range
 \<and> length (interactions_to_send (example_master 0)) = 2
 \<and> PushInteraction \<lparr>type_i = 1, sender_id = 0, sender_type = 0,
                      recipient_id = 0, recipient_type = 1, structure = []\<rparr> (example_master 0)
     = Inl out_of_range"
  by (simp add: example_defs PushInteraction_def DoesAgentExist_def vector_at_def map_at_def
        then_do_def LocalToGlobalId_def Let_def)

subsection \<open>Reading an attribute\<close>

text \<open>
  The arena starts as \<open>arena_allocated\<close> wants it, and \<^verbatim>\<open>clear\<close> and
  \<^verbatim>\<open>allocate\<close> keep it so; a location that \<^verbatim>\<open>allocate\<close> hands out is valid for
  the bytes asked for.
\<close>

lemma arena_allocated_empty: "arena_allocated custom_heap_empty mm"
  by (simp add: arena_allocated_def custom_heap_empty_def)

lemma arena_allocated_clear_heap: "arena_allocated h mm \<Longrightarrow> arena_allocated (clear_heap h) mm"
  by (simp add: arena_allocated_def clear_heap_def split: pointer.splits)








lemma vector_at_Inl: "vector_at xs i = Inl e \<longleftrightarrow> \<not> unat i < length xs \<and> e = out_of_range"
  by (auto simp: vector_at_def)











subsection \<open>The cache of the public attributes read\<close>

lemma fetches_append: "fetches (xs @ ys) = fetches xs @ fetches ys"
  by (induction xs rule: fetches.induct) simp_all

lemma GetPublicAttribute_cases:
  assumes "GetPublicAttribute a g m = Inr (p, m')"
  shows "(received_public_attributes m (g, a) = Some p \<and> m' = m)
       \<or> (received_public_attributes m (g, a) = None
          \<and> received_public_attributes m' = (received_public_attributes m)((g, a) \<mapsto> p)
          \<and> (\<exists>r d t. trace m' = trace m @ [MPI_Get g a r d t]))"
  using assms unfolding GetPublicAttribute_def HasReceivedAttribute_def
  by (auto simp: then_do_Inr Let_def split: option.splits prod.splits)

lemma GetPublicAttribute_fetched_once:
  assumes "GetPublicAttribute a g m = Inr (p, m')" and "fetched_once tr0 m"
  shows "fetched_once tr0 m'"
proof -
  from assms(2) obtain gets where g: "trace m = tr0 @ gets" "list_all is_MPI_Get gets"
    "distinct (fetches gets)" "set (fetches gets) = dom (received_public_attributes m)"
    by (auto simp: fetched_once_def)
  from GetPublicAttribute_cases [OF assms(1)] show ?thesis
  proof
    assume "received_public_attributes m (g, a) = Some p \<and> m' = m"
    then show ?thesis using assms(2) by simp
  next
    assume h: "received_public_attributes m (g, a) = None
          \<and> received_public_attributes m' = (received_public_attributes m)((g, a) \<mapsto> p)
          \<and> (\<exists>r d t. trace m' = trace m @ [MPI_Get g a r d t])"
    then obtain r d t where t: "trace m' = trace m @ [MPI_Get g a r d t]" by blast
    have new: "(g, a) \<notin> set (fetches gets)"
      using h g(4) by (simp add: domIff)
    have "trace m' = tr0 @ (gets @ [MPI_Get g a r d t])"
      using t g(1) by simp
    moreover have "list_all is_MPI_Get (gets @ [MPI_Get g a r d t])"
      using g(2) by simp
    moreover have "distinct (fetches (gets @ [MPI_Get g a r d t]))"
      using g(3) new by (simp add: fetches_append)
    moreover have "set (fetches (gets @ [MPI_Get g a r d t])) = dom (received_public_attributes m')"
      using g(4) h by (simp add: fetches_append)
    ultimately show ?thesis
      unfolding fetched_once_def by blast
  qed
qed

lemma GetAttribute_fetched_once:
  assumes "GetAttribute a i t m = Inr (p, m')" and "fetched_once tr0 m"
  shows "fetched_once tr0 m'"
  using assms unfolding GetAttribute_def
  by (auto simp: then_do_Inr Let_def split: if_splits dest: GetPublicAttribute_fetched_once)

lemma PushInteraction_fetched_once:
  assumes "PushInteraction x m = Inr m'" and "fetched_once tr0 m"
  shows "fetched_once tr0 m'"
  using assms unfolding PushInteraction_def
  by (auto simp: then_do_Inr Let_def fetched_once_def split: if_splits)

lemma run_action_fetched_once:
  "run_action act m = Inr m' \<Longrightarrow> fetched_once tr0 m \<Longrightarrow> fetched_once tr0 m'"
  by (cases act) (auto simp: then_do_Inr dest: GetAttribute_fetched_once PushInteraction_fetched_once)

lemma run_actions_fetched_once:
  "run_actions acts m = Inr m' \<Longrightarrow> fetched_once tr0 m \<Longrightarrow> fetched_once tr0 m'"
proof (induction acts arbitrary: m)
  case Nil
  then show ?case by simp
next
  case (Cons act acts)
  then show ?case
    by (auto simp: then_do_Inr dest: run_action_fetched_once)
qed




text \<open>
  A thread that is not interrupted makes the calls of its handler one after the other:
  the four steps of a miss are \<^verbatim>\<open>GetPublicAttribute\<close>.
\<close>

lemma join_AskAttribute:
  "join (Thread Idle_thread (AskAttribute attr ident type # rest)) m =
     then_do (GetAttribute attr ident type m) (\<lambda>(p, m'). join (Thread Idle_thread rest) m')"
  by (simp add: GetAttribute_def GetAttribute_lookup_def GetPublicAttribute_def
        GetPublicAttribute_allocate_def GetPublicAttribute_set_def GetPublicAttribute_get_def
        MPI_Get_public_def then_do_def Let_def
        split: sum.splits option.splits prod.splits)

lemma join_SendMessage:
  "join (Thread Idle_thread (SendMessage interaction # rest)) m =
     then_do (PushInteraction interaction m) (join (Thread Idle_thread rest))"
  by (simp add: then_do_def split: sum.splits)

lemma join_run_actions:
  "join (Thread Idle_thread acts) m = run_actions acts m"
proof (induction acts arbitrary: m)
  case Nil
  show ?case by simp
next
  case (Cons act acts)
  show ?case
  proof (cases act)
    case (AskAttribute attr ident type)
    show ?thesis
      unfolding AskAttribute join_AskAttribute
      by (simp add: then_do_def Cons.IH split: sum.splits prod.splits)
  next
    case (SendMessage interaction)
    show ?thesis
      unfolding SendMessage join_SendMessage
      by (simp add: then_do_def Cons.IH split: sum.splits)
  qed
qed

lemma run_actions_append:
  "run_actions (xs @ ys) m = then_do (run_actions xs m) (run_actions ys)"
  by (induction xs arbitrary: m) (simp_all add: then_do_def split: sum.splits)

lemma join_all_run_actions:
  "join_all (map (Thread Idle_thread) calls) m = run_actions (concat calls) m"
  by (induction calls arbitrary: m)
     (simp_all add: join_run_actions run_actions_append then_do_def split: sum.splits)

text \<open>
  When no thread makes a step before the threads are joined, so that the handlers run
  one after the other, the one-sided reads of \<^verbatim>\<open>RunBehaviors\<close> are for pairwise
  different pairs.
\<close>

lemma RunBehaviors_in_turn_fetched_once:
  assumes "\<forall>m0. schedule env m0 = []" and "RunBehaviors env m = Inr m'"
  shows "fetched_once (trace m @ [Enter RunBehaviors_phase]) m'"
proof -
  define m0 where "m0 = enter RunBehaviors_phase
                (m\<lparr>received_public_attributes := Map.empty,
                    stored_public_attributes := clear_heap (stored_public_attributes m)\<rparr>)"
  from assms obtain m1 where a: "run_actions (concat (Behavior env m0)) m0 = Inr m1"
    and m': "m' = m1\<lparr>agents := (\<lambda>g. map_option (\<lambda>a. a\<lparr>received := []\<rparr>) (agents m1 g))\<rparr>"
    by (auto simp: RunBehaviors_def Let_def then_do_Inr m0_def join_all_run_actions)
  have s: "received_public_attributes m0 = Map.empty" "trace m0 = trace m @ [Enter RunBehaviors_phase]"
    by (simp_all add: m0_def enter_def)
  have "fetched_once (trace m0) m0"
    using s(1) by (simp add: fetched_once_def)
  from run_actions_fetched_once [OF a this]
  show ?thesis
    by (simp add: fetched_once_def m' s(2))
qed

text \<open>
  C2 fails on the code. \<^verbatim>\<open>RunBehaviors\<close> runs every agent handler in a thread of its
  own, and in \<^verbatim>\<open>GetPublicAttribute\<close> the lookup in the cache and the insertion are two
  critical sections. Here the behaviours of two handlers read the same public attribute
  (attribute 0 of wolf 0, global identifier 1, an agent of master 1) in the same time
  step, and each thread makes its lookup before the other has inserted: both lookups
  miss, both threads allocate, insert and fetch. The time step issues two one-sided reads
  for the pair (1, 0); the arena holds two copies, eight bytes for an attribute of four,
  and the cache keeps the location of the second.
\<close>

theorem RunBehaviors_fetches_twice:
  "map_sum id trace (RunBehaviors racing_environment racing_master)
     = Inr [Enter RunBehaviors_phase, MPI_Get 1 0 1 0 3, MPI_Get 1 0 1 0 3]
 \<and> map_sum id (fetches \<circ> trace) (RunBehaviors racing_environment racing_master)
     = Inr [(1, 0), (1, 0)]
 \<and> map_sum id (size_h \<circ> stored_public_attributes) (RunBehaviors racing_environment racing_master)
     = Inr 8
 \<and> map_sum id received_public_attributes (RunBehaviors racing_environment racing_master)
     = Inr [(1, 0) \<mapsto> Addr 1 4]"
  by (simp add: racing_environment_def racing_master_def example_defs eval_defs resize_bytes_def)

subsection \<open>The locations handed out by the arena\<close>

text \<open>An allocation that fits in the capacity touches neither the block nor the memory.\<close>

lemma allocate_within_capacity:
  "size_h h + sz \<le> capacity h \<Longrightarrow>
     allocate sz h mm = Inr (ptr_add (data h) (unat (size_h h)), h\<lparr>size_h := size_h h + sz\<rparr>, mm)"
  by (simp add: allocate_def)

text \<open>
  C6 fails on the code. In the small simulation, with an arena that is still empty and a
  C library whose \<^verbatim>\<open>realloc\<close> moves the block: the first read (public attribute 0 of
  wolf 0, four bytes) gets the location \<open>p1\<close>, which holds the bytes fetched; the second
  read (public attribute 0 of sheep 1, two bytes) does not fit in the capacity of four
  bytes, so \<^verbatim>\<open>custom_heap::allocate\<close> calls \<^verbatim>\<open>realloc\<close> (line 67) and the block
  moves. After it \<open>p1\<close> is no longer a valid location, nothing can be read through it,
  and the cache still returns \<open>p1\<close> for the first pair.
\<close>

theorem cached_location_dangles_after_realloc:
  "\<exists>p1 m1 p2 m2.
      GetPublicAttribute 0 1 (example_master 0) = Inr (p1, m1)
    \<and> p1 = Addr 1 0
    \<and> stored_public_attributes m1 = \<lparr>data = Addr 1 0, size_h = 4, capacity = 4\<rparr>
    \<and> load (mem m1) p1 4 = Some [4, 5, 6, 7]
    \<and> GetPublicAttribute 0 2 m1 = Inr (p2, m2)
    \<and> p2 = Addr 2 4
    \<and> stored_public_attributes m2 = \<lparr>data = Addr 2 0, size_h = 6, capacity = 8\<rparr>
    \<and> load (mem m2) p2 2 = Some [8, 9]
    \<and> blocks (mem m2) 1 = None
    \<and> \<not> valid_pointer (mem m2) p1 4
    \<and> load (mem m2) p1 4 = None
    \<and> received_public_attributes m2 (1, 0) = Some p1
    \<and> GetPublicAttribute 0 1 m2 = Inr (p1, m2)"
  by (simp add: example_defs eval_defs resize_bytes_def)

subsection \<open>Modifying an attribute\<close>

text \<open>
  C10. \<^verbatim>\<open>IsAttributeSendable(attr, t)\<close> is true exactly when the catalog of the sizes,
  whose keys are pairs of an agent type (first component) and an attribute (second
  component), has a key whose first component is \<open>attr\<close> and whose second component is
  \<open>t\<close>. It gates \<^verbatim>\<open>ModifyAttribute\<close> on master 0: when the predicate is false the
  order is refused (the only effect is a message on the standard error, about the type
  when \<open>t\<close> is not a type of the simulation and about the attribute otherwise), and when
  it is true for a type of the simulation and the agent exists, the order is broadcast
  and the transfer is run.
\<close>

theorem IsAttributeSendable_swapped_lookup:
  "(IsAttributeSendable m attr t \<longleftrightarrow> (\<exists>k \<in> dom (attributes_sizes m). fst k = attr \<and> snd k = t))
 \<and> (id_m m = 0 \<and> \<not> IsAttributeSendable m attr t
      \<longrightarrow> ModifyAttribute g attr i t location m =
            Inr (m\<lparr>cerr := cerr m @
                   [if nb_types m \<le> t then Agent_type_does_not_exist t else Attribute_not_sendable]\<rparr>))
 \<and> (id_m m = 0 \<and> t < nb_types m \<and> IsAttributeSendable m attr t \<and> DoesAgentExist m i t = Inr True
      \<longrightarrow> ModifyAttribute g attr i t location m =
            ModifyAttribute_transfer (LocalToGlobalId m i t) attr location
              (m\<lparr>order := MODIFY_ATTRIBUTE, trace := trace m @ [MPI_Bcast_order MODIFY_ATTRIBUTE]\<rparr>))"
proof (intro conjI impI)
  show "IsAttributeSendable m attr t \<longleftrightarrow> (\<exists>k \<in> dom (attributes_sizes m). fst k = attr \<and> snd k = t)"
  proof -
    have "(\<exists>k \<in> dom (attributes_sizes m). fst k = attr \<and> snd k = t) \<longleftrightarrow> (attr, t) \<in> dom (attributes_sizes m)"
      by force
    then show ?thesis
      by (simp add: IsAttributeSendable_def domIff)
  qed
next
  assume h: "id_m m = 0 \<and> \<not> IsAttributeSendable m attr t"
  then show "ModifyAttribute g attr i t location m =
            Inr (m\<lparr>cerr := cerr m @
                   [if nb_types m \<le> t then Agent_type_does_not_exist t else Attribute_not_sendable]\<rparr>)"
    by (simp add: ModifyAttribute_def Let_def)
next
  assume h: "id_m m = 0 \<and> t < nb_types m \<and> IsAttributeSendable m attr t \<and> DoesAgentExist m i t = Inr True"
  then have "\<not> nb_types m \<le> t" by (simp add: not_le)
  with h show "ModifyAttribute g attr i t location m =
            ModifyAttribute_transfer (LocalToGlobalId m i t) attr location
              (m\<lparr>order := MODIFY_ATTRIBUTE, trace := trace m @ [MPI_Bcast_order MODIFY_ATTRIBUTE]\<rparr>)"
    by (simp add: ModifyAttribute_def Let_def then_do_def)
qed

theorem IsAttributeSendable_swapped_lookup_witness:
  "IsAttributeSendable (example_master 0) 0 1
 \<and> \<not> IsAttributeSendable (example_master 0) 1 1
 \<and> ModifyAttribute 0 1 0 1 (Some [1, 1, 1, 1]) (example_master 0)
     = Inr ((example_master 0)\<lparr>cerr := [Attribute_not_sendable]\<rparr>)
 \<and> ModifyAttribute 0 0 0 1 (Some [1, 1, 1, 1]) (example_master 0)
     = ModifyAttribute_transfer 1 0 (Some [1, 1, 1, 1])
         ((example_master 0)\<lparr>order := MODIFY_ATTRIBUTE, trace := [MPI_Bcast_order MODIFY_ATTRIBUTE]\<rparr>)"
  using IsAttributeSendable_swapped_lookup [of "example_master 0" 0 1 0 0 "Some [1, 1, 1, 1]"]
        IsAttributeSendable_swapped_lookup [of "example_master 0" 1 1 0 0 "Some [1, 1, 1, 1]"]
  by (simp add: example_defs DoesAgentExist_def vector_at_def then_do_def LocalToGlobalId_def
        word_le_nat_alt)

text \<open>
  C3 fails on the code. In the small simulation (two masters):
  \<^item> the order to set attribute 0 of sheep 0, held by master 0, passes the checks and
    master 0 commits the new value, sending nothing; master 1, which runs
    \<^verbatim>\<open>ModifyAttribute()\<close> on receiving the order, does not ignore it: it evaluates
    \<^verbatim>\<open>agents_.at\<close> for an agent it does not hold (line 257) and throws
    \<^verbatim>\<open>std::out_of_range\<close>;
  \<^item> the order to set attribute 0 of wolf 0, held by master 1, makes master 0 send the
    attribute and the value to master 1 only, and master 1 commits the value it receives;
    a third master would not ignore the order either: it waits in \<^verbatim>\<open>MPI_Recv\<close>
    (line 250) for a message that is never sent.
\<close>

theorem ModifyAttribute_not_ignored_by_other_masters:
  "(\<exists>m'. ModifyAttribute 0 0 0 0 (Some [42, 43]) (example_master 0) = Inr m'
        \<and> map_option (\<lambda>a. (attributes a 0, attributes a 1)) (agents m' 0)
            = Some (Some [42, 43], Some [3])
        \<and> outbox m' = [])
 \<and> ModifyAttribute 0 0 0 0 None (example_master 1) = Inl out_of_range
 \<and> (\<exists>m'. ModifyAttribute 0 0 0 1 (Some [1, 1, 1, 1]) (example_master 0) = Inr m'
        \<and> outbox m' = [(1, Attribute_id 0), (1, Attribute_value [1, 1, 1, 1])])
 \<and> (\<exists>m'. ModifyAttribute 1 0 0 0 None
               ((example_master 1)\<lparr>inbox := [Attribute_id 0, Attribute_value [1, 1, 1, 1]]\<rparr>) = Inr m'
        \<and> map_option (\<lambda>a. attributes a 0) (agents m' 1) = Some (Some [1, 1, 1, 1])
        \<and> inbox m' = [])
 \<and> ModifyAttribute 1 0 0 0 None ((example_master 2)\<lparr>nb_masters := 3\<rparr>) = Inl blocked_in_MPI_Recv"
  by (simp add: example_defs ModifyAttribute_def ModifyAttribute_transfer_def IsAttributeSendable_def
        DoesAgentExist_def vector_at_def map_at_def then_do_def LocalToGlobalId_def GlobalToLocalType_def
        overwrite_def Let_def word_le_nat_alt)

subsection \<open>The offsets computed by the initialisation of the windows\<close>

lemma register_agent_layout:
  assumes "layout_inputs m1 = layout_inputs m2"
  shows "map_sum id layout_inputs (register_agent g m1) = map_sum id layout_inputs (register_agent g m2)"
  using assms
  by (simp add: layout_inputs_def register_agent_def then_do_def vector_at_def map_at_def
        GlobalToLocalType_def GlobalToLocalId_def split: option.splits)

lemma map_sum_eq_cases:
  assumes "map_sum id f a = map_sum id f b"
  shows "(\<exists>e. a = Inl e \<and> b = Inl e) \<or> (\<exists>x y. a = Inr x \<and> b = Inr y \<and> f x = f y)"
  using assms by (cases a; cases b) simp_all

lemma register_agents_layout:
  "layout_inputs m1 = layout_inputs m2 \<Longrightarrow>
     map_sum id layout_inputs (register_agents gs m1) = map_sum id layout_inputs (register_agents gs m2)"
proof (induction gs arbitrary: m1 m2)
  case Nil
  then show ?case by simp
next
  case (Cons g gs)
  from map_sum_eq_cases [OF register_agent_layout [OF Cons.prems, of g]]
  show ?case
  proof
    assume "\<exists>e. register_agent g m1 = Inl e \<and> register_agent g m2 = Inl e"
    then show ?thesis by (auto simp: then_do_def)
  next
    assume "\<exists>x y. register_agent g m1 = Inr x \<and> register_agent g m2 = Inr y
               \<and> layout_inputs x = layout_inputs y"
    then obtain x y where r: "register_agent g m1 = Inr x" "register_agent g m2 = Inr y"
      and l: "layout_inputs x = layout_inputs y" by blast
    show ?thesis
      using Cons.IH [OF l] r by (simp add: then_do_def)
  qed
qed

text \<open>
  C8. Two masters that have the same number of agent types and of masters, the same
  assignment of the agents to the masters and the same sizes of the public and of the
  critical record of each type, that start with the same offset maps and public window
  descriptions (empty after the constructor), and that run \<^verbatim>\<open>InitializeWindows\<close> on
  vectors of global identifiers that are the same once sorted, either both fail with the
  same exception or both compute the same public offset map and the same critical offset
  map, whatever else differs between them (their identifier, their agents, their
  memory).
\<close>

theorem InitializeWindows_same_offsets:
  assumes "nb_types m1 = nb_types m2" and "nb_masters m1 = nb_masters m2"
    and "masters m1 = masters m2"
    and "public_attributes_struct_sizes m1 = public_attributes_struct_sizes m2"
    and "critical_attributes_struct_sizes m1 = critical_attributes_struct_sizes m2"
    and "public_agents_offsets m1 = public_agents_offsets m2"
    and "critical_agents_offsets m1 = critical_agents_offsets m2"
    and "PublicWindowsDescription m1 = PublicWindowsDescription m2"
    and "sort ids1 = sort ids2"
  shows "map_sum id offset_maps (InitializeWindows ids1 m1)
       = map_sum id offset_maps (InitializeWindows ids2 m2)"
proof (cases "nb_masters m1 < 0")
  case True
  then show ?thesis
    using assms(2) by (simp add: InitializeWindows_def Let_def)
next
  case False
  define s1 where "s1 = m1\<lparr>PublicWindowsDescription :=
                         vector_resize (nat (nb_masters m1)) \<lparr>size_w = 0, used = 0\<rparr> (PublicWindowsDescription m1),
                       CriticalWindowDescription := (CriticalWindowDescription m1)\<lparr>size_w := 0\<rparr>,
                       maximal_ids := replicate (unat (nb_types m1)) 0,
                       agent_ids_by_types := vector_resize (unat (nb_types m1)) {} (agent_ids_by_types m1)\<rparr>"
  define s2 where "s2 = m2\<lparr>PublicWindowsDescription :=
                         vector_resize (nat (nb_masters m2)) \<lparr>size_w = 0, used = 0\<rparr> (PublicWindowsDescription m2),
                       CriticalWindowDescription := (CriticalWindowDescription m2)\<lparr>size_w := 0\<rparr>,
                       maximal_ids := replicate (unat (nb_types m2)) 0,
                       agent_ids_by_types := vector_resize (unat (nb_types m2)) {} (agent_ids_by_types m2)\<rparr>"
  have l: "layout_inputs s1 = layout_inputs s2"
    using assms(1-8) by (simp add: layout_inputs_def s1_def s2_def vector_resize_def)
  have i1: "InitializeWindows ids1 m1 =
      then_do (register_agents (sort ids1) s1) (\<lambda>m2.
                 let max_public_used = fold (\<lambda>x acc. max acc (used x)) (PublicWindowsDescription m2) 0;
                     critical_bytes = unat (2 * size_w (CriticalWindowDescription m2))
                 in Inr (m2\<lparr>PublicWindowsDescription :=
                              map (\<lambda>x. x\<lparr>size_w := 2 * max_public_used\<rparr>) (PublicWindowsDescription m2),
                            begin_critical_window := Addr (next_block (mem m2)) 0,
                            mem := (mem m2)\<lparr>blocks := (blocks (mem m2))
                                               (next_block (mem m2) \<mapsto> replicate critical_bytes 0),
                                            next_block := Suc (next_block (mem m2))\<rparr>\<rparr>))"
    using False by (simp add: InitializeWindows_def Let_def s1_def)
  have i2: "InitializeWindows ids2 m2 =
      then_do (register_agents (sort ids2) s2) (\<lambda>m2.
                 let max_public_used = fold (\<lambda>x acc. max acc (used x)) (PublicWindowsDescription m2) 0;
                     critical_bytes = unat (2 * size_w (CriticalWindowDescription m2))
                 in Inr (m2\<lparr>PublicWindowsDescription :=
                              map (\<lambda>x. x\<lparr>size_w := 2 * max_public_used\<rparr>) (PublicWindowsDescription m2),
                            begin_critical_window := Addr (next_block (mem m2)) 0,
                            mem := (mem m2)\<lparr>blocks := (blocks (mem m2))
                                               (next_block (mem m2) \<mapsto> replicate critical_bytes 0),
                                            next_block := Suc (next_block (mem m2))\<rparr>\<rparr>))"
    using False assms(2) by (simp add: InitializeWindows_def Let_def s2_def)
  from map_sum_eq_cases [OF register_agents_layout [OF l, of "sort ids1"]]
  show ?thesis
  proof
    assume "\<exists>e. register_agents (sort ids1) s1 = Inl e \<and> register_agents (sort ids1) s2 = Inl e"
    then show ?thesis
      unfolding i1 i2 using assms(9) by (auto simp: then_do_def)
  next
    assume "\<exists>x y. register_agents (sort ids1) s1 = Inr x \<and> register_agents (sort ids1) s2 = Inr y
               \<and> layout_inputs x = layout_inputs y"
    then obtain x y where r: "register_agents (sort ids1) s1 = Inr x" "register_agents (sort ids1) s2 = Inr y"
      and xy: "layout_inputs x = layout_inputs y" by blast
    from xy have "offset_maps x = offset_maps y"
      by (simp add: layout_inputs_def offset_maps_def)
    then show ?thesis
      unfolding i1 i2 using assms(9) r by (simp add: then_do_def Let_def offset_maps_def)
  qed
qed



lemma example_windows:
  "map_sum id offset_maps (InitializeWindows [2, 0, 1] (example_before_windows 0))
     = Inr (offset_maps (example_master 0))"
  by (simp add: InitializeWindows_def register_agent_def example_before_windows_def example_defs
        then_do_def vector_at_def map_at_def map_insert_def vector_resize_def
        GlobalToLocalType_def GlobalToLocalId_def offset_maps_def Let_def replicate_numeral
        word_le_nat_alt)

theorem InitializeWindows_same_offsets_witness:
  "map_sum id offset_maps (InitializeWindows [1, 2, 0] (example_before_windows 1))
     = Inr ([0 \<mapsto> 0, 1 \<mapsto> 0, 2 \<mapsto> 4], [0 \<mapsto> 0, 1 \<mapsto> 1, 2 \<mapsto> 1])"
  using InitializeWindows_same_offsets
          [of "example_before_windows 0" "example_before_windows 1" "[2, 0, 1]" "[1, 2, 0]"]
        example_windows
  by (simp add: example_before_windows_def example_defs offset_maps_def word_le_nat_alt)

subsection \<open>What the initialisation of the windows establishes\<close>

text \<open>
  When \<^verbatim>\<open>InitializeWindows\<close> returns on a newly constructed master, the vector
  \<^verbatim>\<open>agent_ids_by_types_\<close> has one entry per agent type and every agent registered in
  it has a master: the state that the theorems on \<^verbatim>\<open>PushInteraction\<close> and
  \<^verbatim>\<open>GetAttribute\<close> above assume.
\<close>

lemma register_agent_agents_have_masters:
  assumes "register_agent g m = Inr m'" and "agents_have_masters m"
  shows "agents_have_masters m'"
proof -
  from assms(1) obtain ids bound r w ps cs where
    T: "nb_types m \<noteq> 0" and
    ids: "vector_at (agent_ids_by_types m) (g mod nb_types m) = Inr ids" and
    r: "masters m g = Some r" and
    w: "vector_at (PublicWindowsDescription m) (word_of_int r) = Inr w" and
    m': "m' = m\<lparr>agent_ids_by_types := (agent_ids_by_types m)[unat (g mod nb_types m) := insert (g div nb_types m) ids],
              maximal_ids := (maximal_ids m)[unat (g mod nb_types m) := max bound (g div nb_types m + 1)],
              public_agents_offsets := map_insert (public_agents_offsets m) g (used w),
              critical_agents_offsets :=
                map_insert (critical_agents_offsets m) g (size_w (CriticalWindowDescription m)),
              PublicWindowsDescription :=
                (PublicWindowsDescription m)[unat (word_of_int r :: u64) := w\<lparr>used := used w + ps\<rparr>],
              CriticalWindowDescription :=
                (CriticalWindowDescription m)
                  \<lparr>size_w := size_w (CriticalWindowDescription m) + cs\<rparr>\<rparr>"
    by (auto simp: register_agent_def then_do_Inr GlobalToLocalType_def GlobalToLocalId_def
          map_at_def split: if_splits option.splits)
  from w have wr: "unat (word_of_int r :: u64) < length (PublicWindowsDescription m)"
    by (simp add: vector_at_def split: if_splits)
  from ids have idsv: "unat (g mod nb_types m) < length (agent_ids_by_types m)"
    "ids = agent_ids_by_types m ! unat (g mod nb_types m)"
    by (auto simp: vector_at_def split: if_splits)
  have g: "LocalToGlobalId m (g div nb_types m) (g mod nb_types m) = g"
    by (simp add: LocalToGlobalId_def mult_div_mod_eq)
  have len: "length (agent_ids_by_types m') = unat (nb_types m')"
    using assms(2) by (simp add: m' agents_have_masters_def)
  have "\<exists>r'. masters m' (LocalToGlobalId m' i t) = Some r'
                 \<and> unat (word_of_int r' :: u64) < length (PublicWindowsDescription m')"
    if t: "t < nb_types m'" and i: "i \<in> agent_ids_by_types m' ! unat t" for t i
  proof (cases "t = g mod nb_types m \<and> i = g div nb_types m")
    case True
    then show ?thesis
      using g r wr by (simp add: m' LocalToGlobalId_def)
  next
    case False
    have "i \<in> agent_ids_by_types m ! unat t"
    proof (cases "t = g mod nb_types m")
      case True
      with False i idsv show ?thesis by (simp add: m')
    next
      case False
      then have "unat t \<noteq> unat (g mod nb_types m)"
        by (simp add: word_unat_eq_iff)
      with i show ?thesis by (simp add: m')
    qed
    with assms(2) t obtain r' where "masters m (LocalToGlobalId m i t) = Some r'"
      "unat (word_of_int r' :: u64) < length (PublicWindowsDescription m)"
      by (auto simp: agents_have_masters_def m')
    then show ?thesis
      by (auto simp: m' LocalToGlobalId_def)
  qed
  with len show ?thesis
    unfolding agents_have_masters_def by blast
qed

lemma register_agents_agents_have_masters:
  "register_agents gs m = Inr m' \<Longrightarrow> agents_have_masters m \<Longrightarrow> agents_have_masters m'"
proof (induction gs arbitrary: m)
  case Nil
  then show ?case by simp
next
  case (Cons g gs)
  then show ?case
    by (auto simp: then_do_Inr dest: register_agent_agents_have_masters)
qed

lemma InitializeWindows_agents_have_masters:
  assumes "InitializeWindows ids m = Inr m'" and "agent_ids_by_types m = []"
  shows "agents_have_masters m'"
proof -
  define s where "s = m\<lparr>PublicWindowsDescription :=
                         vector_resize (nat (nb_masters m)) \<lparr>size_w = 0, used = 0\<rparr> (PublicWindowsDescription m),
                       CriticalWindowDescription := (CriticalWindowDescription m)\<lparr>size_w := 0\<rparr>,
                       maximal_ids := replicate (unat (nb_types m)) 0,
                       agent_ids_by_types := vector_resize (unat (nb_types m)) {} (agent_ids_by_types m)\<rparr>"
  from assms(1) obtain m2 where r: "register_agents (sort ids) s = Inr m2"
    and m': "masters m' = masters m2" "nb_types m' = nb_types m2"
      "agent_ids_by_types m' = agent_ids_by_types m2"
      "length (PublicWindowsDescription m') = length (PublicWindowsDescription m2)"
    by (auto simp: InitializeWindows_def Let_def then_do_Inr s_def split: if_splits)
  have "agents_have_masters s"
    using assms(2) by (auto simp: agents_have_masters_def s_def vector_resize_def word_less_nat_alt)
  from register_agents_agents_have_masters [OF r this] show ?thesis
    by (simp add: agents_have_masters_def m' LocalToGlobalId_def)
qed

end
